theory Spec2Isabelle
  imports Complex_Main "HOL-Library.Sublist" "HOL-Library.Char_ord" "HOL-Library.List_Lexorder"
    "HOL-Library.Product_Lexorder"
begin

section \<open>Ticket-sales analytics: conventions of the model\<close>

text \<open>
  The repository analyses ticket orders read from CSV files, once with plain Python
  (\<^verbatim>\<open>basic_analysis.py\<close>) and once with pandas (\<^verbatim>\<open>show_insights.py\<close>,
  \<^verbatim>\<open>show_level_analysis.py\<close>, \<^verbatim>\<open>dashboard.py\<close>,
  \<^verbatim>\<open>advanced_time_series.py\<close>). A pandas column is a list of cells; a cell that
  pandas holds as NaN or NaT is \<open>None\<close>. Python's \<open>float\<close> values are modelled by
  \<open>real\<close> numbers: sums and quotients are the exact ones, rounding is not modelled. An
  exception is a value of \<open>py_error\<close>, and a function that can raise returns
  \<open>py_error + 'a\<close>.
\<close>

section \<open>Strings and paths\<close>

text \<open>
  Python's \<open>str.lower\<close>, \<open>str.endswith\<close>, \<open>sub in s\<close> and
  \<open>str.replace\<close>, on ASCII text (a \<open>char\<close> is a byte here).
\<close>

definition lower_char :: "char \<Rightarrow> char" where
  "lower_char c =
     (let n = (of_char c :: nat) in if 65 \<le> n \<and> n \<le> 90 then char_of (n + 32) else c)"

definition lower :: "string \<Rightarrow> string" where
  "lower s = map lower_char s"

definition endswith :: "string \<Rightarrow> string \<Rightarrow> bool" where
  "endswith s suf = suffix suf s"

definition contains :: "string \<Rightarrow> string \<Rightarrow> bool" where
  "contains sub s = sublist sub s"

fun replace :: "string \<Rightarrow> string \<Rightarrow> string \<Rightarrow> string" where
  "replace [] old new = []"
| "replace (c # cs) old new =
     (if old \<noteq> [] \<and> prefix old (c # cs)
      then new @ replace (drop (length old) (c # cs)) old new
      else c # replace cs old new)"

text \<open>\<open>os.path.join\<close> of two components (POSIX).\<close>

definition path_join :: "string \<Rightarrow> string \<Rightarrow> string" where
  "path_join a b =
     (if prefix ''/'' b then b
      else if a = [] \<or> endswith a ''/'' then a @ b
      else a @ ''/'' @ b)"

text \<open>
  \<open>os.path.split(p)[0]\<close>: the text up to the last slash, with trailing slashes
  removed unless it consists of slashes only; and \<open>os.path.basename\<close>.
\<close>

definition rstrip_slash :: "string \<Rightarrow> string" where
  "rstrip_slash s = rev (dropWhile (\<lambda>c. c = CHR ''/'') (rev s))"

definition path_head :: "string \<Rightarrow> string" where
  "path_head p =
     (let h = rev (dropWhile (\<lambda>c. c \<noteq> CHR ''/'') (rev p))
      in if h \<noteq> [] \<and> \<not> list_all (\<lambda>c. c = CHR ''/'') h then rstrip_slash h else h)"

definition basename :: "string \<Rightarrow> string" where
  "basename p = rev (takeWhile (\<lambda>c. c \<noteq> CHR ''/'') (rev p))"

section \<open>The loaders\<close>

text \<open>
  \<open>listing\<close> stands for the names in the data folder (what \<open>os.listdir\<close> returns).
  \<open>glob.glob(os.path.join(folder, '*.csv'))\<close> lists the folder named by the pattern's
  directory part, leaves out hidden names, keeps the names that match \<open>*.csv\<close> and
  returns each joined to the directory part. The folder is a literal path (no \<open>*\<close>,
  \<open>?\<close> or \<open>[\<close> in it).
\<close>

definition glob_csv :: "string \<Rightarrow> string list \<Rightarrow> string list" where
  "glob_csv folder listing =
     (let dirname = path_head (path_join folder ''*.csv'')
      in map (\<lambda>name. if dirname = [] then name else path_join dirname name)
           (filter (\<lambda>name. \<not> prefix ''.'' name \<and> endswith name ''.csv'') listing))"

text \<open>
  \<^verbatim>\<open>
  csv_files = glob.glob(os.path.join(self.data_folder, '*.csv'))
  for file in csv_files:
      if file.endswith('.csv') and not 'eda' in file.lower():
          day_name = os.path.basename(file).replace('.csv', '')
          df_temp = pd.read_csv(file)
          df_temp['day_of_week'] = day_name
          dataframes.append(df_temp)
  \<close>
  \<open>ShowInsights.load_data\<close> and \<open>ShowLevelAnalysis.load_data\<close> share this loop. The
  model returns, for each file that is read, its day name and its path.
\<close>

definition load_data_files :: "string \<Rightarrow> string list \<Rightarrow> (string \<times> string) list" where
  "load_data_files data_folder listing =
     map (\<lambda>file. (replace (basename file) ''.csv'' [], file))
       (filter (\<lambda>file. endswith file ''.csv'' \<and> \<not> contains ''eda'' (lower file))
          (glob_csv data_folder listing))"

text \<open>
  \<^verbatim>\<open>
  csv_files = [f for f in os.listdir(data_folder)
               if f.endswith('.csv') and 'eda' not in f.lower()]
  for filename in csv_files:
      filepath = os.path.join(data_folder, filename)
      day_name = filename.replace('.csv', '')
  \<close>
  \<open>load_csv_data\<close> of \<^verbatim>\<open>basic_analysis.py\<close>.
\<close>

definition load_csv_data_files :: "string \<Rightarrow> string list \<Rightarrow> (string \<times> string) list" where
  "load_csv_data_files data_folder listing =
     map (\<lambda>filename. (replace filename ''.csv'' [], path_join data_folder filename))
       (filter (\<lambda>f. endswith f ''.csv'' \<and> \<not> contains ''eda'' (lower f)) listing)"

section \<open>The batch report: \<open>analyze_data\<close> of \<^verbatim>\<open>basic_analysis.py\<close>\<close>

text \<open>
  A row of \<open>csv.DictReader\<close> is a dictionary from column names to the text of the
  fields (a line as long as the header: every field present holds text). Python's built-in
  conversions and \<open>datetime.strptime\<close> are parameters of the
  model: each returns \<open>None\<close> where Python raises \<open>ValueError\<close>. A parsed order
  timestamp is its day number and the second of that day, a parsed event date its day
  number.
\<close>

type_synonym csv_row = "string \<rightharpoonup> string"

record builtins =
  py_int :: "string \<Rightarrow> int option"
  py_float :: "string \<Rightarrow> real option"
  strptime_datetime :: "string \<Rightarrow> (int \<times> nat) option"
  strptime_date :: "string \<Rightarrow> int option"

datatype py_error = ValueError | KeyError | AttributeError | ZeroDivisionError

definition bind :: "py_error + 'a \<Rightarrow> ('a \<Rightarrow> py_error + 'b) \<Rightarrow> py_error + 'b" where
  "bind m f = (case m of Inl e \<Rightarrow> Inl e | Inr x \<Rightarrow> f x)"

text \<open>A generator expression consumed from left to right: the first raise ends it.\<close>

fun collect :: "('r \<Rightarrow> py_error + 'a) \<Rightarrow> 'r list \<Rightarrow> py_error + 'a list" where
  "collect f [] = Inr []"
| "collect f (r # rs) = bind (f r) (\<lambda>v. bind (collect f rs) (\<lambda>vs. Inr (v # vs)))"

text \<open>The values a result dictionary holds, and the keys of a dictionary.\<close>

datatype pykey = KInt int | KStr string

datatype pyval =
    PNone
  | PInt int
  | PFloat real
  | PStr string
  | PDict "(pykey \<times> pyval) list"

text \<open>
  A \<open>Counter\<close> or \<open>defaultdict(int)\<close> as an association list in insertion order:
  \<open>d[k] += 1\<close>, and the counter of a sequence.
\<close>

fun dict_incr :: "'k \<Rightarrow> ('k \<times> nat) list \<Rightarrow> ('k \<times> nat) list" where
  "dict_incr k [] = [(k, 1)]"
| "dict_incr k ((k', c) # d) = (if k = k' then (k', c + 1) # d else (k', c) # dict_incr k d)"

definition Counter :: "'k list \<Rightarrow> ('k \<times> nat) list" where
  "Counter xs = foldl (\<lambda>d k. dict_incr k d) [] xs"

text \<open>
  \<open>max(hour_counts, key=hour_counts.get)\<close>: the first key, in insertion order, whose
  count is the largest.
\<close>

fun max_key :: "('k \<times> nat) list \<Rightarrow> 'k option" where
  "max_key [] = None"
| "max_key ((k, c) # d) =
     (if list_all (\<lambda>(k', c'). c' \<le> c) d then Some k else max_key d)"

text \<open>
  \<open>most_common(n)\<close>: the \<open>n\<close> entries with the largest counts, the largest first,
  equal counts in insertion order.
\<close>

definition most_common :: "nat \<Rightarrow> ('k \<times> nat) list \<Rightarrow> ('k \<times> nat) list" where
  "most_common n d = take n (sort_key (\<lambda>(k, c). - int c) d)"

definition counts_dict :: "('k \<Rightarrow> pykey) \<Rightarrow> ('k \<times> nat) list \<Rightarrow> pyval" where
  "counts_dict mk d = PDict (map (\<lambda>(k, c). (mk k, PInt (int c))) d)"

text \<open>\<open>row.get(col, default)\<close> and the truth value of \<open>row.get(col)\<close>.\<close>

definition get_or :: "csv_row \<Rightarrow> string \<Rightarrow> string \<Rightarrow> string" where
  "get_or row col dflt = (case row col of None \<Rightarrow> dflt | Some s \<Rightarrow> s)"

definition truthy :: "csv_row \<Rightarrow> string \<Rightarrow> bool" where
  "truthy row col = (case row col of None \<Rightarrow> False | Some s \<Rightarrow> s \<noteq> [])"

text \<open>
  \<^verbatim>\<open>
  results['total_tickets'] = sum(int(row.get('Ticket quantity', 0)) for row in data)
  results['total_revenue'] = sum(float(row.get('Gross sales', 0)) for row in data
                                 if row.get('Gross sales'))
  results['unique_customers'] = len(set(row.get('Buyer email', '').lower() for row in data
                                        if row.get('Buyer email')))
  \<close>
\<close>

definition ticket_int :: "builtins \<Rightarrow> int \<Rightarrow> csv_row \<Rightarrow> py_error + int" where
  "ticket_int B dflt row =
     (case row ''Ticket quantity'' of
        None \<Rightarrow> Inr dflt
      | Some s \<Rightarrow> (case py_int B s of None \<Rightarrow> Inl ValueError | Some n \<Rightarrow> Inr n))"

definition sales_float :: "builtins \<Rightarrow> csv_row \<Rightarrow> py_error + real" where
  "sales_float B row =
     (case row ''Gross sales'' of
        None \<Rightarrow> Inr 0
      | Some s \<Rightarrow> (case py_float B s of None \<Rightarrow> Inl ValueError | Some x \<Rightarrow> Inr x))"

definition total_tickets :: "builtins \<Rightarrow> csv_row list \<Rightarrow> py_error + int" where
  "total_tickets B data = bind (collect (ticket_int B 0) data) (\<lambda>ns. Inr (sum_list ns))"

definition total_revenue :: "builtins \<Rightarrow> csv_row list \<Rightarrow> py_error + real" where
  "total_revenue B data =
     bind (collect (sales_float B) (filter (\<lambda>row. truthy row ''Gross sales'') data))
       (\<lambda>xs. Inr (sum_list xs))"

definition unique_customers :: "csv_row list \<Rightarrow> nat" where
  "unique_customers data =
     length (remdups (map (\<lambda>row. lower (get_or row ''Buyer email'' []))
                        (filter (\<lambda>row. truthy row ''Buyer email'') data)))"

text \<open>
  \<^verbatim>\<open>
  for row in data:
      try:
          order_date = datetime.strptime(row['Order date'], '%Y-%m-%d %H:%M:%S')
          event_date = datetime.strptime(row['Event start date'], '%Y-%m-%d')
          ...
          days_diff = (event_date - order_date).days
          days_before_event.append(days_diff)
          order_hours.append(order_date.hour)
      except (ValueError, KeyError):
          continue
  \<close>
  The \<open>days\<close> of a time difference round down: an order placed after midnight of its day
  is less than a whole number of days before the midnight the event date stands for.
\<close>

definition time_features :: "builtins \<Rightarrow> csv_row \<Rightarrow> (int \<times> nat) option" where
  "time_features B row =
     (case row ''Order date'' of
        None \<Rightarrow> None
      | Some s \<Rightarrow>
          (case strptime_datetime B s of
             None \<Rightarrow> None
           | Some (order_day, secs) \<Rightarrow>
               (case row ''Event start date'' of
                  None \<Rightarrow> None
                | Some t \<Rightarrow>
                    (case strptime_date B t of
                       None \<Rightarrow> None
                     | Some event_day \<Rightarrow>
                         Some (event_day - order_day - (if 0 < secs then 1 else 0),
                               secs div 3600)))))"

definition timing_results :: "int list \<Rightarrow> (pykey \<times> pyval) list" where
  "timing_results days =
     (if days \<noteq> [] then
        [(KStr ''avg_days_before_event'', PFloat (real_of_int (sum_list days) / real (length days))),
         (KStr ''same_day_purchases'', PInt (int (length (filter (\<lambda>d. d = 0) days)))),
         (KStr ''last_minute_purchases'', PInt (int (length (filter (\<lambda>d. d \<le> 1) days)))),
         (KStr ''advance_purchases'', PInt (int (length (filter (\<lambda>d. 7 \<le> d) days))))]
      else [])"

text \<open>
  \<^verbatim>\<open>
  for row in data:
      email = row.get('Buyer email', '').lower()
      if email:
          customer_orders[email] += 1
          ...
  repeat_customers = sum(1 for count in customer_orders.values() if count > 1)
  results['repeat_customer_rate'] = (repeat_customers / len(customer_orders) * 100) if customer_orders else 0
  results['avg_orders_per_customer'] = sum(customer_orders.values()) / len(customer_orders) if customer_orders else 0
  \<close>
\<close>

definition customer_emails :: "csv_row list \<Rightarrow> string list" where
  "customer_emails data =
     filter (\<lambda>email. email \<noteq> []) (map (\<lambda>row. lower (get_or row ''Buyer email'' [])) data)"

definition customer_orders :: "csv_row list \<Rightarrow> (string \<times> nat) list" where
  "customer_orders data = Counter (customer_emails data)"

definition repeat_customers :: "csv_row list \<Rightarrow> nat" where
  "repeat_customers data =
     sum_list (map (\<lambda>count. 1) (filter (\<lambda>count. 1 < count) (map snd (customer_orders data))))"

definition repeat_customer_rate :: "csv_row list \<Rightarrow> pyval" where
  "repeat_customer_rate data =
     (if customer_orders data \<noteq> []
      then PFloat (real (repeat_customers data) / real (length (customer_orders data)) * 100)
      else PInt 0)"

definition avg_orders_per_customer :: "csv_row list \<Rightarrow> pyval" where
  "avg_orders_per_customer data =
     (if customer_orders data \<noteq> []
      then PFloat (real (sum_list (map snd (customer_orders data)))
                   / real (length (customer_orders data)))
      else PInt 0)"

text \<open>
  The whole of \<open>analyze_data\<close>: the result dictionary in the order its keys are stored,
  or the first exception. \<open>row['day_of_week']\<close> raises \<open>KeyError\<close> on a row without
  that key. A sum over no amounts is the integer 0 that \<open>sum\<close> starts from. The customer
  loop also adds \<open>float(row.get('Gross sales', 0))\<close> to a total per customer, under
  \<open>try: ... except (ValueError, TypeError): pass\<close>; no result reads these totals, and
  they are left out.
\<close>

definition day_of_week_key :: "csv_row \<Rightarrow> py_error + string" where
  "day_of_week_key row = (case row ''day_of_week'' of None \<Rightarrow> Inl KeyError | Some d \<Rightarrow> Inr d)"

definition analyze_data :: "builtins \<Rightarrow> csv_row list \<Rightarrow> py_error + pyval" where
  "analyze_data B data =
     bind (total_tickets B data) (\<lambda>tickets.
     bind (total_revenue B data) (\<lambda>revenue.
     (let times = List.map_filter (time_features B) data;
          hour_counts = Counter (map snd times)
      in
     bind (collect day_of_week_key data) (\<lambda>days.
     bind (collect (ticket_int B 1) (filter (\<lambda>row. truthy row ''Ticket quantity'') data))
       (\<lambda>quantities.
        Inr (PDict (
          [(KStr ''total_orders'', PInt (int (length data))),
           (KStr ''total_tickets'', PInt tickets),
           (KStr ''total_revenue'',
              (if filter (\<lambda>row. truthy row ''Gross sales'') data = [] then PInt 0
               else PFloat revenue)),
           (KStr ''unique_customers'', PInt (int (unique_customers data)))]
          @ timing_results (map fst times) @
          [(KStr ''peak_hour'',
              (case max_key hour_counts of None \<Rightarrow> PNone | Some h \<Rightarrow> PInt (int h))),
           (KStr ''hourly_distribution'', counts_dict (\<lambda>h. KInt (int h)) hour_counts),
           (KStr ''orders_by_day'', counts_dict KStr (Counter days)),
           (KStr ''repeat_customer_rate'', repeat_customer_rate data),
           (KStr ''avg_orders_per_customer'', avg_orders_per_customer data),
           (KStr ''top_states'',
              counts_dict KStr (most_common 10
                (Counter (map (\<lambda>row. get_or row ''Purchaser state'' ''Unknown'') data)))),
           (KStr ''top_cities'',
              counts_dict KStr (most_common 10
                (Counter (map (\<lambda>row. get_or row ''Purchaser city'' ''Unknown'') data)))),
           (KStr ''payment_methods'',
              counts_dict KStr
                (Counter (map (\<lambda>row. get_or row ''Payment type'' ''Unknown'') data))),
           (KStr ''ticket_quantities'', counts_dict KInt (Counter quantities))])))))))"

section \<open>The JSON snapshot\<close>

text \<open>
  \<^verbatim>\<open>
  def save_results_json(results, filename='analysis_results.json'):
      with open(filename, 'w') as f:
          json.dump(results, f, indent=2, default=str)
  \<close>
  and \<open>json.load\<close> in \<open>load_basic_analysis_results\<close> of the dashboard. The text of the
  file is not modelled: a document is the JSON value it holds. \<open>json.dump\<close> writes
  \<open>None\<close> as \<open>null\<close>, numbers and strings as themselves, and a dictionary as an
  object whose member names are strings: a string key as it is, an integer key as the
  decimal text \<open>str(k)\<close>. \<open>json.load\<close> builds a dictionary from the members of an
  object in their order, a later member replacing an earlier one of the same name.
\<close>

definition digit_char :: "nat \<Rightarrow> char" where
  "digit_char d = char_of (48 + d)"

fun nat_digits :: "nat \<Rightarrow> string" where
  "nat_digits n = (if n < 10 then [digit_char n] else nat_digits (n div 10) @ [digit_char (n mod 10)])"

declare nat_digits.simps [simp del]

definition str_int :: "int \<Rightarrow> string" where
  "str_int i = (if i < 0 then CHR ''-'' # nat_digits (nat (- i)) else nat_digits (nat i))"

fun key_str :: "pykey \<Rightarrow> string" where
  "key_str (KInt i) = str_int i"
| "key_str (KStr s) = s"

datatype json =
    JNull
  | JInt int
  | JFloat real
  | JString string
  | JObject "(string \<times> json) list"

primrec json_dump :: "pyval \<Rightarrow> json" where
  "json_dump PNone = JNull"
| "json_dump (PInt i) = JInt i"
| "json_dump (PFloat x) = JFloat x"
| "json_dump (PStr s) = JString s"
| "json_dump (PDict d) = JObject (map (map_prod key_str json_dump) d)"

fun dict_set :: "'k \<Rightarrow> 'v \<Rightarrow> ('k \<times> 'v) list \<Rightarrow> ('k \<times> 'v) list" where
  "dict_set k v [] = [(k, v)]"
| "dict_set k v ((k', v') # d) = (if k = k' then (k', v) # d else (k', v') # dict_set k v d)"

definition dict_of_pairs :: "('k \<times> 'v) list \<Rightarrow> ('k \<times> 'v) list" where
  "dict_of_pairs ps = foldl (\<lambda>d (k, v). dict_set k v d) [] ps"

primrec json_load :: "json \<Rightarrow> pyval" where
  "json_load JNull = PNone"
| "json_load (JInt i) = PInt i"
| "json_load (JFloat x) = PFloat x"
| "json_load (JString s) = PStr s"
| "json_load (JObject ms) = PDict (dict_of_pairs (map (map_prod KStr json_load) ms))"

definition save_results_json :: "pyval \<Rightarrow> json" where
  "save_results_json results = json_dump results"

definition reload :: "pyval \<Rightarrow> pyval" where
  "reload results = json_load (save_results_json results)"

text \<open>
  \<open>d.get(k)\<close> on a dictionary value; and the values that are no dictionaries: the
  scalar aggregates.
\<close>

fun py_get :: "pyval \<Rightarrow> pykey \<Rightarrow> pyval option" where
  "py_get (PDict d) k = map_of d k"
| "py_get v k = None"

fun scalar :: "pyval \<Rightarrow> bool" where
  "scalar (PDict d) = False"
| "scalar v = True"

section \<open>The prepared data frame\<close>

text \<open>
  The pandas reports read the same files. A data frame is the list of its rows; a column
  is there when some row has it, and an empty field is a missing cell (NaN). The parsers of
  pandas are parameters: \<open>to_datetime\<close> gives the seconds of a timestamp (\<open>None\<close>
  where \<open>pd.to_datetime\<close> raises), \<open>to_numeric\<close> the number a text denotes (\<open>None\<close>
  where it denotes none).
  \<^verbatim>\<open>
  def prepare_data(self):
      self.df['Order date'] = pd.to_datetime(self.df['Order date'])
      self.df['Event start date'] = pd.to_datetime(self.df['Event start date'])
      self.df['days_before_event'] = (self.df['Event start date'] - self.df['Order date']).dt.days
      revenue_cols = ['Gross sales', 'Ticket revenue', 'Net sales']
      for col in revenue_cols:
          if col in self.df.columns:
              self.df[col] = pd.to_numeric(self.df[col], errors='coerce')
      self.df['customer_id'] = self.df['Buyer email'].str.lower()
  \<close>
  \<open>self.df[col]\<close> raises \<open>KeyError\<close> for a column that is not there, and the
  \<open>.str\<close> accessor raises \<open>AttributeError\<close> on a column of missing cells only, which
  holds no text. The reports read the columns \<open>Order ID\<close>, \<open>Payment type\<close> and
  \<open>Gross sales\<close> of the prepared frame; the model takes them to be there.
\<close>

record pandas =
  to_datetime :: "string \<Rightarrow> int option"
  to_numeric :: "string \<Rightarrow> real option"

record order_row =
  order_id :: "string option"
  order_date :: "int option"
  event_start_date :: "int option"
  day_of_week :: string
  buyer_email :: "string option"
  payment_type :: "string option"
  gross_sales :: "real option"
  days_before_event :: "int option"
  customer_id :: "string option"

definition cell :: "csv_row \<Rightarrow> string \<Rightarrow> string option" where
  "cell row col = (case row col of None \<Rightarrow> None | Some s \<Rightarrow> if s = [] then None else Some s)"

definition column :: "csv_row list \<Rightarrow> string \<Rightarrow> py_error + string option list" where
  "column df col =
     (if df \<noteq> [] \<and> list_all (\<lambda>row. row col = None) df then Inl KeyError
      else Inr (map (\<lambda>row. cell row col) df))"

definition to_datetime_cell :: "pandas \<Rightarrow> string option \<Rightarrow> py_error + int option" where
  "to_datetime_cell P c =
     (case c of
        None \<Rightarrow> Inr None
      | Some s \<Rightarrow> (case to_datetime P s of None \<Rightarrow> Inl ValueError | Some t \<Rightarrow> Inr (Some t)))"

definition to_numeric_coerce :: "pandas \<Rightarrow> string option \<Rightarrow> real option" where
  "to_numeric_coerce P c = (case c of None \<Rightarrow> None | Some s \<Rightarrow> to_numeric P s)"

definition dt_days :: "int option \<Rightarrow> int option \<Rightarrow> int option" where
  "dt_days event order =
     (case event of
        None \<Rightarrow> None
      | Some e \<Rightarrow> (case order of None \<Rightarrow> None | Some t \<Rightarrow> Some ((e - t) div 86400)))"

definition str_lower :: "string option list \<Rightarrow> py_error + string option list" where
  "str_lower cells =
     (if cells \<noteq> [] \<and> list_all (\<lambda>c. c = None) cells then Inl AttributeError
      else Inr (map (map_option lower) cells))"

definition prepared_row ::
  "pandas \<Rightarrow> csv_row \<times> int option \<times> int option \<times> string option \<Rightarrow> order_row" where
  "prepared_row P x =
     (case x of (row, od, ed, cid) \<Rightarrow>
        \<lparr> order_id = cell row ''Order ID'',
          order_date = od,
          event_start_date = ed,
          day_of_week = get_or row ''day_of_week'' [],
          buyer_email = cell row ''Buyer email'',
          payment_type = cell row ''Payment type'',
          gross_sales = to_numeric_coerce P (cell row ''Gross sales''),
          days_before_event = dt_days ed od,
          customer_id = cid \<rparr>)"

definition prepare_data :: "pandas \<Rightarrow> csv_row list \<Rightarrow> py_error + order_row list" where
  "prepare_data P df =
     bind (column df ''Order date'') (\<lambda>order_texts.
     bind (collect (to_datetime_cell P) order_texts) (\<lambda>order_dates.
     bind (column df ''Event start date'') (\<lambda>event_texts.
     bind (collect (to_datetime_cell P) event_texts) (\<lambda>event_dates.
     bind (column df ''Buyer email'') (\<lambda>emails.
     bind (str_lower emails) (\<lambda>customer_ids.
       Inr (map (prepared_row P)
              (zip df (zip order_dates (zip event_dates customer_ids))))))))))"

section \<open>Grouping and reductions\<close>

text \<open>
  \<open>df.groupby(key)\<close>: one group for each value of the key that occurs, sorted by key,
  rows with a missing key left out (\<open>dropna=True\<close>). Texts are compared as lists of
  characters, a pair of keys by its first component first.
\<close>

definition groupby :: "('r \<Rightarrow> 'k::linorder option) \<Rightarrow> 'r list \<Rightarrow> ('k \<times> 'r list) list" where
  "groupby key df =
     map (\<lambda>k. (k, filter (\<lambda>r. key r = Some k) df)) (sort (remdups (List.map_filter key df)))"

text \<open>
  Grouping by a categorical column, as \<open>pd.cut\<close> returns one: with \<open>observed=False\<close>
  every category has a group, in the order of the categories; with \<open>observed=True\<close> only
  the categories that occur have one.
\<close>

definition groupby_categorical ::
  "bool \<Rightarrow> string list \<Rightarrow> string option list \<Rightarrow> 'r list \<Rightarrow> (string \<times> 'r list) list" where
  "groupby_categorical observed categories keys df =
     (let groups = map (\<lambda>c. (c, map snd (filter (\<lambda>(k, r). k = Some c) (zip keys df)))) categories
      in if observed then filter (\<lambda>(c, g). g \<noteq> []) groups else groups)"

text \<open>The reductions \<open>count\<close>, \<open>sum\<close>, \<open>nunique\<close> and \<open>mean\<close>: all skip missing cells.\<close>

definition count :: "('r \<Rightarrow> 'a option) \<Rightarrow> 'r list \<Rightarrow> nat" where
  "count col g = length (List.map_filter col g)"

definition sum_skipna :: "('r \<Rightarrow> real option) \<Rightarrow> 'r list \<Rightarrow> real" where
  "sum_skipna col g = sum_list (List.map_filter col g)"

definition nunique :: "('r \<Rightarrow> 'a option) \<Rightarrow> 'r list \<Rightarrow> nat" where
  "nunique col g = length (remdups (List.map_filter col g))"

definition mean_skipna :: "('r \<Rightarrow> int option) \<Rightarrow> 'r list \<Rightarrow> real option" where
  "mean_skipna col g =
     (let xs = List.map_filter col g
      in if xs = [] then None else Some (real_of_int (sum_list xs) / real (length xs)))"

section \<open>Booking-window buckets (\<open>pd.cut\<close>)\<close>

text \<open>
  \<^verbatim>\<open>
  booking_windows = pd.cut(self.df['days_before_event'],
                           bins=[-1, 0, 1, 3, 7, 14, 30, float('inf')],
                           labels=['Same Day', '1 Day', '2-3 Days', '4-7 Days',
                                   '1-2 Weeks', '2-4 Weeks', '1+ Month'])
  \<close>
  A bin edge is a number or \<open>float('inf')\<close>.
\<close>

datatype edge = Fin int | PInf

fun edge_less :: "edge \<Rightarrow> int \<Rightarrow> bool" where
  "edge_less (Fin b) x = (b < x)"
| "edge_less PInf x = False"

text \<open>
  \<open>bins.searchsorted(x, side='left')\<close>: the first position whose edge is not below
  \<open>x\<close> (the edges are increasing).
\<close>

definition searchsorted_left :: "edge list \<Rightarrow> int \<Rightarrow> nat" where
  "searchsorted_left bins x = length (takeWhile (\<lambda>b. edge_less b x) bins)"

text \<open>
  \<open>pd.cut\<close> with its defaults \<open>right=True\<close>, \<open>include_lowest=False\<close>: the value
  gets the label of the half-open interval \<open>(bins[i-1], bins[i]]\<close> that holds it; a
  missing value, a value at or below the first edge and a value above the last edge get
  no label (NaN).
\<close>

definition cut :: "int option \<Rightarrow> edge list \<Rightarrow> string list \<Rightarrow> string option" where
  "cut x bins labels =
     (case x of
        None \<Rightarrow> None
      | Some v \<Rightarrow>
          (let ids = searchsorted_left bins v
           in if ids = length bins \<or> ids = 0 then None else Some (labels ! (ids - 1))))"

definition booking_bins :: "edge list" where
  "booking_bins = [Fin (-1), Fin 0, Fin 1, Fin 3, Fin 7, Fin 14, Fin 30, PInf]"

definition booking_labels :: "string list" where
  "booking_labels =
     [''Same Day'', ''1 Day'', ''2-3 Days'', ''4-7 Days'', ''1-2 Weeks'', ''2-4 Weeks'',
      ''1+ Month'']"

definition booking_window :: "int option \<Rightarrow> string option" where
  "booking_window d = cut d booking_bins booking_labels"

definition booking_windows :: "order_row list \<Rightarrow> string option list" where
  "booking_windows df = map (\<lambda>r. booking_window (days_before_event r)) df"

text \<open>
  \<^verbatim>\<open>
  booking_analysis = self.df.groupby(booking_windows).agg({
      'Order ID': 'count',
      'Gross sales': 'sum'
  }).reset_index()
  \<close>
  in \<open>ShowInsights.controllable_variables_analysis\<close>
  (\<open>ShowLevelAnalysis.controllable_variables_analysis\<close> adds the sum of the ticket
  quantities). The call names no \<open>observed\<close>, so pandas takes its default, the parameter
  \<open>observed_default\<close> here: \<open>False\<close> in pandas before 3.0. A row of the table is the
  label, the count and the sum. The dashboard (\<open>show_overview_analysis\<close>) makes the same table with
  \<open>groupby(booking_windows, observed=True)\<close>.
\<close>

definition booking_table :: "bool \<Rightarrow> order_row list \<Rightarrow> (string \<times> nat \<times> real) list" where
  "booking_table observed df =
     map (\<lambda>(label, g). (label, count order_id g, sum_skipna gross_sales g))
       (groupby_categorical observed booking_labels (booking_windows df) df)"

definition booking_analysis :: "bool \<Rightarrow> order_row list \<Rightarrow> (string \<times> nat \<times> real) list" where
  "booking_analysis observed_default df = booking_table observed_default df"

definition dashboard_booking_analysis :: "order_row list \<Rightarrow> (string \<times> nat \<times> real) list" where
  "dashboard_booking_analysis df = booking_table True df"

section \<open>Individual shows\<close>

text \<open>
  \<^verbatim>\<open>
  show_groups = self.df.groupby(['Event start date', 'day_of_week'])
  for (event_date, day_of_week), show_data in show_groups:
      total_orders = len(show_data)
      total_revenue = show_data['Gross sales'].sum()
      unique_customers = show_data['customer_id'].nunique()
      avg_days_before = show_data['days_before_event'].mean()
      same_day_purchases = len(show_data[show_data['days_before_event'] == 0])
      free_tickets = len(show_data[show_data['Payment type'] == 'Free'])
      show_results.append({ ...
          'same_day_rate': same_day_purchases / total_orders if total_orders > 0 else 0,
          'free_rate': free_tickets / total_orders if total_orders > 0 else 0 })
  show_results.sort(key=lambda x: x['orders'], reverse=True)
  \<close>
  The two lengths are Python integers, and \<open>/\<close> on them raises \<open>ZeroDivisionError\<close>
  when the divisor is 0.
\<close>

definition truediv :: "nat \<Rightarrow> nat \<Rightarrow> py_error + real" where
  "truediv a b = (if b = 0 then Inl ZeroDivisionError else Inr (real a / real b))"

definition same_day_purchases :: "order_row list \<Rightarrow> nat" where
  "same_day_purchases show_data = length (filter (\<lambda>r. days_before_event r = Some 0) show_data)"

definition free_tickets :: "order_row list \<Rightarrow> nat" where
  "free_tickets show_data = length (filter (\<lambda>r. payment_type r = Some ''Free'') show_data)"

definition same_day_rate :: "order_row list \<Rightarrow> py_error + real" where
  "same_day_rate show_data =
     (let total_orders = length show_data
      in if 0 < total_orders then truediv (same_day_purchases show_data) total_orders else Inr 0)"

definition free_rate :: "order_row list \<Rightarrow> py_error + real" where
  "free_rate show_data =
     (let total_orders = length show_data
      in if 0 < total_orders then truediv (free_tickets show_data) total_orders else Inr 0)"

record show_result =
  show_date :: int
  show_day :: string
  orders :: nat
  revenue :: real
  customers :: nat
  avg_days_before :: "real option"
  show_same_day_rate :: real
  show_free_rate :: real

definition show_key :: "order_row \<Rightarrow> (int \<times> string) option" where
  "show_key r = map_option (\<lambda>d. (d, day_of_week r)) (event_start_date r)"

definition show_entry :: "(int \<times> string) \<times> order_row list \<Rightarrow> py_error + show_result" where
  "show_entry grp =
     (case grp of ((event_date, day), show_data) \<Rightarrow>
        bind (same_day_rate show_data) (\<lambda>sdr.
        bind (free_rate show_data) (\<lambda>fr.
          Inr \<lparr> show_date = event_date,
                show_day = day,
                orders = length show_data,
                revenue = sum_skipna gross_sales show_data,
                customers = nunique customer_id show_data,
                avg_days_before = mean_skipna days_before_event show_data,
                show_same_day_rate = sdr,
                show_free_rate = fr \<rparr>)))"

definition analyze_individual_shows :: "order_row list \<Rightarrow> py_error + show_result list" where
  "analyze_individual_shows df =
     bind (collect show_entry (groupby show_key df))
       (\<lambda>show_results. Inr (sort_key (\<lambda>x. - int (orders x)) show_results))"

section \<open>Repeat customers\<close>

text \<open>
  \<^verbatim>\<open>
  customer_analysis = self.df.groupby('customer_id').agg({
      'Order ID': 'count', ..., 'Gross sales': 'sum', ...,
      'day_of_week': lambda x: list(set(x)), ... }).reset_index()
  # Filter for repeat customers (3+ orders)
  repeat_customers = customer_analysis[customer_analysis['total_orders'] >= 3].copy()
  repeat_customers['avg_order_value'] = repeat_customers['total_spent'] / repeat_customers['total_orders']
  repeat_customers['days_variety'] = repeat_customers['days_attended'].apply(len)
  \<close>
  in \<open>ShowInsights.repeat_customer_case_studies\<close>; the dashboard's
  \<open>show_customer_analysis\<close> and \<open>identify_repeat_customer_case_studies\<close> of
  \<^verbatim>\<open>show_level_analysis.py\<close> repeat it. The columns kept here are the customer, the
  order count, the amount spent and the days attended. The list made of a Python set has
  no specified order, and the code reads its length only: the model keeps the set.
\<close>

record customer_summary =
  cust_id :: string
  total_orders :: nat
  total_spent :: real
  days_attended :: "string set"

definition customer_analysis :: "order_row list \<Rightarrow> customer_summary list" where
  "customer_analysis df =
     map (\<lambda>(cid, g).
           \<lparr> cust_id = cid,
             total_orders = count order_id g,
             total_spent = sum_skipna gross_sales g,
             days_attended = set (map day_of_week g) \<rparr>)
       (groupby customer_id df)"

definition case_study_customers :: "order_row list \<Rightarrow> customer_summary list" where
  "case_study_customers df = filter (\<lambda>c. 3 \<le> total_orders c) (customer_analysis df)"

text \<open>
  \<^verbatim>\<open>
  with col1:
      st.metric("Repeat Customers", f"{len(repeat_customers):,}")
  with col2:
      total_customers = analyzer.df['customer_id'].nunique()
      repeat_rate = len(repeat_customers) / total_customers * 100
      st.metric("Repeat Rate", f"{repeat_rate:.1f}%")
  \<close>
  in \<open>show_customer_analysis\<close> of \<^verbatim>\<open>dashboard.py\<close>, where \<open>repeat_customers\<close> is the
  frame of the case studies. Both operands are Python integers.
\<close>

definition dashboard_repeat_rate :: "order_row list \<Rightarrow> py_error + real" where
  "dashboard_repeat_rate df =
     bind (truediv (length (case_study_customers df)) (nunique customer_id df))
       (\<lambda>quotient. Inr (quotient * 100))"

text \<open>
  \<^verbatim>\<open>
  customer_orders = self.df['customer_id'].value_counts()
  new_customers = len(customer_orders[customer_orders == 1])
  returning_customers = len(customer_orders[customer_orders > 1])
  ... self.df['customer_id'].isin(customer_orders[customer_orders > 1].index) ...
  \<close>
  in \<open>ShowInsights.controllable_variables_analysis\<close>, and
  \<^verbatim>\<open>
  repeat_customers = len(self.df['customer_id'].value_counts()[self.df['customer_id'].value_counts() > 1])
  total_customers = self.df['customer_id'].nunique()
  repeat_rate = (repeat_customers / total_customers) * 100
  \<close>
  in \<open>ShowInsights.generate_actionable_recommendations\<close>. \<open>value_counts\<close> counts the
  rows of each value, leaves the missing ones out and puts the largest count first.
\<close>

definition value_counts :: "('r \<Rightarrow> 'k::linorder option) \<Rightarrow> 'r list \<Rightarrow> ('k \<times> nat) list" where
  "value_counts col df =
     sort_key (\<lambda>(k, n). - int n) (map (\<lambda>(k, g). (k, length g)) (groupby col df))"

definition returning_customer_ids :: "order_row list \<Rightarrow> string list" where
  "returning_customer_ids df =
     map fst (filter (\<lambda>(cid, n). 1 < n) (value_counts customer_id df))"

definition recommendation_repeat_customers :: "order_row list \<Rightarrow> nat" where
  "recommendation_repeat_customers df =
     length (filter (\<lambda>(cid, n). 1 < n) (value_counts customer_id df))"

definition recommendation_repeat_rate :: "order_row list \<Rightarrow> py_error + real" where
  "recommendation_repeat_rate df =
     bind (truediv (recommendation_repeat_customers df) (nunique customer_id df))
       (\<lambda>quotient. Inr (quotient * 100))"

section \<open>Smoothing and anomaly flags\<close>

text \<open>
  \<^verbatim>\<open>
  def apply_smoothing(self, data, method='rolling', window=7, alpha=0.3):
      if method == 'rolling':
          return data.rolling(window=window, center=True).mean()
      elif method == 'exponential':
          return data.ewm(alpha=alpha).mean()
      elif method == 'savgol':
          if len(data) > window:
              return pd.Series(signal.savgol_filter(data, window, 3), index=data.index)
          else:
              return data
      else:
          return data
  \<close>
  A series is the list of its (index, value) pairs. The three library filters are
  parameters; \<open>savgol_filter\<close> can raise. \<open>pd.Series(values, index=...)\<close> raises
  \<open>ValueError\<close> when the two lengths differ.
\<close>

type_synonym ('i, 'v) series = "('i \<times> 'v) list"

record ('i, 'v) filters =
  rolling_mean :: "('i, 'v) series \<Rightarrow> int \<Rightarrow> ('i, 'v) series"
  ewm_mean :: "('i, 'v) series \<Rightarrow> real \<Rightarrow> ('i, 'v) series"
  savgol_filter :: "'v list \<Rightarrow> int \<Rightarrow> nat \<Rightarrow> py_error + 'v list"

definition Series :: "'v list \<Rightarrow> 'i list \<Rightarrow> py_error + ('i, 'v) series" where
  "Series vals idx = (if length vals = length idx then Inr (zip idx vals) else Inl ValueError)"

definition apply_smoothing ::
  "('i, 'v) filters \<Rightarrow> ('i, 'v) series \<Rightarrow> string \<Rightarrow> int \<Rightarrow> real \<Rightarrow> py_error + ('i, 'v) series" where
  "apply_smoothing F data method window alpha =
     (if method = ''rolling'' then Inr (rolling_mean F data window)
      else if method = ''exponential'' then Inr (ewm_mean F data alpha)
      else if method = ''savgol'' then
        (if window < int (length data)
         then bind (savgol_filter F (map snd data) window 3) (\<lambda>ys. Series ys (map fst data))
         else Inr data)
      else Inr data)"

text \<open>
  \<^verbatim>\<open>
  def detect_anomalies(self, data, threshold=2):
      z_scores = np.abs(zscore(data.dropna()))
      return z_scores > threshold
  \<close>
  \<open>zscore\<close> is \<open>(a - a.mean()) / a.std()\<close> with the population standard deviation.
  Array division does not raise: \<open>0 / 0\<close> is NaN and \<open>x / 0\<close> is an infinity. A
  comparison with NaN is false.
\<close>

datatype npfloat = Num real | NaN | PosInf | NegInf

definition np_divide :: "real \<Rightarrow> real \<Rightarrow> npfloat" where
  "np_divide x y =
     (if y = 0 then (if x = 0 then NaN else if 0 < x then PosInf else NegInf) else Num (x / y))"

fun np_abs :: "npfloat \<Rightarrow> npfloat" where
  "np_abs (Num x) = Num \<bar>x\<bar>"
| "np_abs NaN = NaN"
| "np_abs PosInf = PosInf"
| "np_abs NegInf = PosInf"

fun np_greater :: "npfloat \<Rightarrow> real \<Rightarrow> bool" where
  "np_greater (Num x) t = (t < x)"
| "np_greater NaN t = False"
| "np_greater PosInf t = True"
| "np_greater NegInf t = False"

definition mean :: "real list \<Rightarrow> real" where
  "mean a = sum_list a / real (length a)"

definition std :: "real list \<Rightarrow> real" where
  "std a = sqrt (mean (map (\<lambda>x. (x - mean a)\<^sup>2) a))"

definition zscore :: "real list \<Rightarrow> npfloat list" where
  "zscore a = map (\<lambda>x. np_divide (x - mean a) (std a)) a"

definition dropna :: "'a option list \<Rightarrow> 'a list" where
  "dropna data = List.map_filter (\<lambda>x. x) data"

definition detect_anomalies :: "real option list \<Rightarrow> real \<Rightarrow> bool list" where
  "detect_anomalies data threshold =
     map (\<lambda>z. np_greater (np_abs z) threshold) (zscore (dropna data))"

section \<open>An instance of the library parameters\<close>

text \<open>
  To run the model on concrete rows, the parsers are instantiated for the texts that the
  exports hold: decimal numerals with an optional sign, and dates and timestamps written
  \<open>YYYY-MM-DD\<close> and \<open>YYYY-MM-DD HH:MM:SS\<close>. On such a text the instance gives what
  Python and pandas give; any other text it rejects, and the examples below use none that
  the libraries would accept.
\<close>

definition digit_val :: "char \<Rightarrow> nat option" where
  "digit_val c = (let n = (of_char c :: nat) in if 48 \<le> n \<and> n \<le> 57 then Some (n - 48) else None)"

fun read_digits :: "string \<Rightarrow> nat \<Rightarrow> nat option" where
  "read_digits [] acc = Some acc"
| "read_digits (c # cs) acc =
     (case digit_val c of None \<Rightarrow> None | Some d \<Rightarrow> read_digits cs (10 * acc + d))"

definition read_nat :: "string \<Rightarrow> nat option" where
  "read_nat s = (if s = [] then None else read_digits s 0)"

definition read_int :: "string \<Rightarrow> int option" where
  "read_int s =
     (case s of
        [] \<Rightarrow> None
      | c # cs \<Rightarrow>
          if c = CHR ''-'' then map_option (\<lambda>n. - int n) (read_nat cs)
          else if c = CHR ''+'' then map_option int (read_nat cs)
          else map_option int (read_nat s))"

definition read_unsigned_decimal :: "string \<Rightarrow> real option" where
  "read_unsigned_decimal s =
     (let ip = takeWhile (\<lambda>c. c \<noteq> CHR ''.'') s;
          fp = drop (length ip + 1) s
      in if ip = [] \<and> fp = [] then None
         else (case read_digits ip 0 of
                 None \<Rightarrow> None
               | Some i \<Rightarrow>
                   (case read_digits fp 0 of
                      None \<Rightarrow> None
                    | Some f \<Rightarrow> Some (real i + real f / 10 ^ length fp))))"

definition read_decimal :: "string \<Rightarrow> real option" where
  "read_decimal s =
     (case s of
        [] \<Rightarrow> None
      | c # cs \<Rightarrow>
          if c = CHR ''-'' then map_option uminus (read_unsigned_decimal cs)
          else if c = CHR ''+'' then read_unsigned_decimal cs
          else read_unsigned_decimal s)"

definition is_leap :: "nat \<Rightarrow> bool" where
  "is_leap y = (y mod 4 = 0 \<and> (y mod 100 \<noteq> 0 \<or> y mod 400 = 0))"

definition days_in_month :: "nat \<Rightarrow> nat \<Rightarrow> nat" where
  "days_in_month y m =
     (if m = 2 then (if is_leap y then 29 else 28)
      else if m = 4 \<or> m = 6 \<or> m = 9 \<or> m = 11 then 30 else 31)"

text \<open>The number of the day in the proleptic Gregorian calendar, counted from 1970-01-01.\<close>

definition days_from_civil :: "nat \<Rightarrow> nat \<Rightarrow> nat \<Rightarrow> int" where
  "days_from_civil y m d =
     (let y' = (if m \<le> 2 then int y - 1 else int y);
          era = y' div 400;
          yoe = y' - era * 400;
          doy = (153 * (if 2 < m then int m - 3 else int m + 9) + 2) div 5 + int d - 1;
          doe = yoe * 365 + yoe div 4 - yoe div 100 + doy
      in era * 146097 + doe - 719468)"

definition read_date :: "string \<Rightarrow> int option" where
  "read_date s =
     (if length s = 10 \<and> s ! 4 = CHR ''-'' \<and> s ! 7 = CHR ''-'' then
        (case read_nat (take 4 s) of
           None \<Rightarrow> None
         | Some y \<Rightarrow>
             (case read_nat (take 2 (drop 5 s)) of
                None \<Rightarrow> None
              | Some m \<Rightarrow>
                  (case read_nat (drop 8 s) of
                     None \<Rightarrow> None
                   | Some d \<Rightarrow>
                       if 1 \<le> y \<and> 1 \<le> m \<and> m \<le> 12 \<and> 1 \<le> d \<and> d \<le> days_in_month y m
                       then Some (days_from_civil y m d) else None)))
      else None)"

definition read_time :: "string \<Rightarrow> nat option" where
  "read_time s =
     (if length s = 8 \<and> s ! 2 = CHR '':'' \<and> s ! 5 = CHR '':'' then
        (case read_nat (take 2 s) of
           None \<Rightarrow> None
         | Some h \<Rightarrow>
             (case read_nat (take 2 (drop 3 s)) of
                None \<Rightarrow> None
              | Some m \<Rightarrow>
                  (case read_nat (drop 6 s) of
                     None \<Rightarrow> None
                   | Some sec \<Rightarrow>
                       if h < 24 \<and> m < 60 \<and> sec < 60 then Some (h * 3600 + m * 60 + sec)
                       else None)))
      else None)"

definition read_datetime :: "string \<Rightarrow> (int \<times> nat) option" where
  "read_datetime s =
     (if length s = 19 \<and> s ! 10 = CHR '' '' then
        (case read_date (take 10 s) of
           None \<Rightarrow> None
         | Some d \<Rightarrow> (case read_time (drop 11 s) of None \<Rightarrow> None | Some t \<Rightarrow> Some (d, t)))
      else None)"

definition read_timestamp :: "string \<Rightarrow> int option" where
  "read_timestamp s =
     (case read_datetime s of
        Some (d, t) \<Rightarrow> Some (d * 86400 + int t)
      | None \<Rightarrow> map_option (\<lambda>d. d * 86400) (read_date s))"

text \<open>
  A row of an export, with the columns that the reports read: the order number, the
  weekday tag of the file, the two dates, the buyer's email, the ticket quantity and the
  amount.
\<close>

definition order ::
  "string \<Rightarrow> string \<Rightarrow> string \<Rightarrow> string \<Rightarrow> string \<Rightarrow> string \<Rightarrow> string \<Rightarrow> csv_row" where
  "order oid day ordered event email quantity amount =
     [''Order ID'' \<mapsto> oid, ''Order date'' \<mapsto> ordered, ''Event start date'' \<mapsto> event,
      ''Event name'' \<mapsto> ''Open Mic'', ''Buyer email'' \<mapsto> email,
      ''Purchaser city'' \<mapsto> ''Washington'', ''Purchaser state'' \<mapsto> ''DC'',
      ''Payment type'' \<mapsto> ''Paid'', ''Ticket quantity'' \<mapsto> quantity,
      ''Gross sales'' \<mapsto> amount, ''day_of_week'' \<mapsto> day]"

definition plain_builtins :: builtins where
  "plain_builtins =
     \<lparr> py_int = read_int, py_float = read_decimal,
       strptime_datetime = read_datetime, strptime_date = read_date \<rparr>"

definition plain_pandas :: pandas where
  "plain_pandas = \<lparr> to_datetime = read_timestamp, to_numeric = read_decimal \<rparr>"

text \<open>
  A stand-in for the three filters, to run \<open>apply_smoothing\<close>: its \<open>savgol_filter\<close>
  replaces every value by 0, so that a filtered series is told from a raw one.
\<close>

definition flat_filters :: "(nat, real) filters" where
  "flat_filters =
     \<lparr> rolling_mean = (\<lambda>data window. data),
       ewm_mean = (\<lambda>data alpha. data),
       savgol_filter = (\<lambda>xs window_length polyorder. Inr (map (\<lambda>x. 0) xs)) \<rparr>"

section \<open>Evaluating the instance\<close>

lemmas read_simps =
  read_timestamp_def read_datetime_def read_date_def read_time_def read_nat_def digit_val_def
  days_in_month_def is_leap_def days_from_civil_def read_decimal_def read_unsigned_decimal_def
  read_int_def Let_def

lemmas frame_simps =
  prepare_data_def column_def str_lower_def prepared_row_def bind_def cell_def
  to_datetime_cell_def to_numeric_coerce_def dt_days_def get_or_def plain_pandas_def order_def

lemma read_amount: "read_decimal ''20.00'' = Some 20"
  by (simp add: read_simps)

lemma read_new_year_morning: "read_timestamp ''2024-01-01 10:00:00'' = Some 1704103200"
  by (simp add: read_simps)

lemma read_first_sunday: "read_timestamp ''2024-01-07'' = Some 1704585600"
  by (simp add: read_simps)

lemma read_friday_morning: "read_timestamp ''2024-01-05 10:00:00'' = Some 1704448800"
  by (simp add: read_simps)

lemma read_friday: "read_timestamp ''2024-01-05'' = Some 1704412800"
  by (simp add: read_simps)

lemma lower_email: "lower ''A@X.com'' = ''a@x.com''" "lower ''a@x.com'' = ''a@x.com''"
  by code_simp+

lemma lower_Nil: "lower [] = []"
  by (simp add: lower_def)

lemma same_day_frame:
  "prepare_data plain_pandas
     [order ''1001'' ''Friday'' ''2024-01-05 10:00:00'' ''2024-01-05'' ''a@x.com'' ''2'' ''20.00''] =
   Inr [\<lparr> order_id = Some ''1001'', order_date = Some 1704448800,
           event_start_date = Some 1704412800, day_of_week = ''Friday'',
           buyer_email = Some ''a@x.com'', payment_type = Some ''Paid'', gross_sales = Some 20,
           days_before_event = Some (- 1), customer_id = Some ''a@x.com'' \<rparr>]"
  by (simp add: frame_simps read_friday_morning read_friday read_amount lower_email)

lemma week_ahead_frame:
  "prepare_data plain_pandas
     [order ''1001'' ''Sunday'' ''2024-01-01 10:00:00'' ''2024-01-07'' ''a@x.com'' ''2'' ''20.00''] =
   Inr [\<lparr> order_id = Some ''1001'', order_date = Some 1704103200,
           event_start_date = Some 1704585600, day_of_week = ''Sunday'',
           buyer_email = Some ''a@x.com'', payment_type = Some ''Paid'', gross_sales = Some 20,
           days_before_event = Some 5, customer_id = Some ''a@x.com'' \<rparr>]"
  by (simp add: frame_simps read_new_year_morning read_first_sunday read_amount lower_email)

lemma no_email_frame:
  "prepare_data plain_pandas
     [order ''1001'' ''Sunday'' ''2024-01-01 10:00:00'' ''2024-01-07'' ''A@X.com'' ''2'' ''20.00'',
      order ''1002'' ''Sunday'' ''2024-01-01 10:00:00'' ''2024-01-07'' [] ''2'' ''20.00''] =
   Inr [\<lparr> order_id = Some ''1001'', order_date = Some 1704103200,
           event_start_date = Some 1704585600, day_of_week = ''Sunday'',
           buyer_email = Some ''A@X.com'', payment_type = Some ''Paid'', gross_sales = Some 20,
           days_before_event = Some 5, customer_id = Some ''a@x.com'' \<rparr>,
        \<lparr> order_id = Some ''1002'', order_date = Some 1704103200,
           event_start_date = Some 1704585600, day_of_week = ''Sunday'',
           buyer_email = None, payment_type = Some ''Paid'', gross_sales = Some 20,
           days_before_event = Some 5, customer_id = None \<rparr>]"
  by (simp add: frame_simps read_new_year_morning read_first_sunday read_amount lower_email)

lemma two_orders_frame:
  "prepare_data plain_pandas
     [order ''1001'' ''Sunday'' ''2024-01-01 10:00:00'' ''2024-01-07'' ''A@X.com'' ''2'' ''20.00'',
      order ''1002'' ''Sunday'' ''2024-01-01 10:00:00'' ''2024-01-07'' ''a@x.com'' ''2'' ''20.00''] =
   Inr [\<lparr> order_id = Some ''1001'', order_date = Some 1704103200,
           event_start_date = Some 1704585600, day_of_week = ''Sunday'',
           buyer_email = Some ''A@X.com'', payment_type = Some ''Paid'', gross_sales = Some 20,
           days_before_event = Some 5, customer_id = Some ''a@x.com'' \<rparr>,
        \<lparr> order_id = Some ''1002'', order_date = Some 1704103200,
           event_start_date = Some 1704585600, day_of_week = ''Sunday'',
           buyer_email = Some ''a@x.com'', payment_type = Some ''Paid'', gross_sales = Some 20,
           days_before_event = Some 5, customer_id = Some ''a@x.com'' \<rparr>]"
  by (simp add: frame_simps read_new_year_morning read_first_sunday read_amount lower_email)

section \<open>Properties of the booking-window buckets\<close>

lemma searchsorted_booking_bins:
  "searchsorted_left booking_bins d =
     (if d \<le> -1 then 0 else if d \<le> 0 then 1 else if d \<le> 1 then 2 else if d \<le> 3 then 3
      else if d \<le> 7 then 4 else if d \<le> 14 then 5 else if d \<le> 30 then 6 else 7)"
  by (simp add: searchsorted_left_def booking_bins_def)

lemma booking_window_value:
  "booking_window (Some d) =
     (if d \<le> -1 then None else if d \<le> 0 then Some ''Same Day''
      else if d \<le> 1 then Some ''1 Day'' else if d \<le> 3 then Some ''2-3 Days''
      else if d \<le> 7 then Some ''4-7 Days'' else if d \<le> 14 then Some ''1-2 Weeks''
      else if d \<le> 30 then Some ''2-4 Weeks'' else Some ''1+ Month'')"
proof -
  have len: "length booking_bins = 8"
    by (simp add: booking_bins_def)
  show ?thesis
    unfolding booking_window_def cut_def
    by (simp add: searchsorted_booking_bins len booking_labels_def Let_def)
qed

text \<open>
  Claim C1, as amended. The label of a value \<open>d\<close> of \<open>days_before_event\<close> is decided
  by the seven ranges \<open>0\<close>, \<open>1\<close>, \<open>2..3\<close>, \<open>4..7\<close>, \<open>8..14\<close>,
  \<open>15..30\<close> and \<open>31\<close> and above: every value from 0 on has exactly one label, and a
  negative value has none, since the first interval \<open>(-1, 0]\<close> holds the integer 0 only.
\<close>

theorem booking_window_buckets:
  "(booking_window (Some d) = Some ''Same Day'' \<longleftrightarrow> d = 0) \<and>
   (booking_window (Some d) = Some ''1 Day'' \<longleftrightarrow> d = 1) \<and>
   (booking_window (Some d) = Some ''2-3 Days'' \<longleftrightarrow> 2 \<le> d \<and> d \<le> 3) \<and>
   (booking_window (Some d) = Some ''4-7 Days'' \<longleftrightarrow> 4 \<le> d \<and> d \<le> 7) \<and>
   (booking_window (Some d) = Some ''1-2 Weeks'' \<longleftrightarrow> 8 \<le> d \<and> d \<le> 14) \<and>
   (booking_window (Some d) = Some ''2-4 Weeks'' \<longleftrightarrow> 15 \<le> d \<and> d \<le> 30) \<and>
   (booking_window (Some d) = Some ''1+ Month'' \<longleftrightarrow> 31 \<le> d) \<and>
   (booking_window (Some d) = None \<longleftrightarrow> d \<le> -1)"
  by (simp add: booking_window_value)

text \<open>
  Claim C1 as stated fails at \<open>-1\<close>, the value \<open>prepare_data\<close> derives for an order
  placed at 10:00 on the day of the event (the event date is the midnight that starts
  the day): the order gets no label and is in no row of the booking-window summary.
\<close>

theorem booking_window_negative_counterexample:
  "(case prepare_data plain_pandas
           [order ''1001'' ''Friday'' ''2024-01-05 10:00:00'' ''2024-01-05'' ''a@x.com'' ''2''
              ''20.00''] of
      Inl e \<Rightarrow> False
    | Inr df \<Rightarrow>
        map days_before_event df = [Some (- 1)] \<and>
        booking_windows df = [None] \<and>
        dashboard_booking_analysis df = [])"
  by (simp add: same_day_frame booking_windows_def booking_window_value
      dashboard_booking_analysis_def booking_table_def groupby_categorical_def booking_labels_def)

section \<open>Properties of the loaders\<close>

lemma lower_append: "lower (a @ b) = lower a @ lower b"
  by (simp add: lower_def)

lemma lower_char_slash: "lower_char (CHR ''/'') = CHR ''/''"
  by (simp add: lower_char_def)

lemma rstrip_slash_keeps:
  assumes "ys \<noteq> []" and "last ys \<noteq> CHR ''/''"
  shows "\<exists>zs. rstrip_slash (xs @ ys @ post) = xs @ ys @ zs"
proof (induction post rule: rev_induct)
  case Nil
  from assms have "dropWhile (\<lambda>c. c = CHR ''/'') (rev ys @ rev xs) = rev ys @ rev xs"
    by (cases ys rule: rev_cases) auto
  then show ?case by (simp add: rstrip_slash_def)
next
  case (snoc c post)
  show ?case
  proof (cases "c = CHR ''/''")
    case True
    then have "rstrip_slash (xs @ ys @ post @ [c]) = rstrip_slash (xs @ ys @ post)"
      by (simp add: rstrip_slash_def)
    with snoc show ?thesis by simp
  next
    case False
    then have "rstrip_slash (xs @ ys @ post @ [c]) = xs @ ys @ post @ [c]"
      by (simp add: rstrip_slash_def)
    then show ?thesis by simp
  qed
qed

lemma eda_preimage:
  assumes "contains sub (lower s)" and "sub \<noteq> []" and "last sub \<noteq> CHR ''/''"
  obtains p ys q where "s = p @ ys @ q" and "lower ys = sub" and "ys \<noteq> []"
    and "last ys \<noteq> CHR ''/''"
proof -
  from assms(1) have "sublist sub (map lower_char s)"
    by (simp add: contains_def lower_def)
  then obtain ys where sub: "sublist ys s" and low: "sub = map lower_char ys"
    using sublist_map_rightE by blast
  from sub obtain p q where s: "s = p @ ys @ q"
    unfolding sublist_def by blast
  from low assms(2) have ne: "ys \<noteq> []" by simp
  have "last ys \<noteq> CHR ''/''"
  proof
    assume "last ys = CHR ''/''"
    then have "last (map lower_char ys) = CHR ''/''"
      using ne by (simp add: last_map lower_char_slash)
    with low assms(3) show False by simp
  qed
  with s low ne show thesis
    using that[of p ys q] by (simp add: lower_def)
qed

lemma contains_lower_middle: "lower ys = sub \<Longrightarrow> contains sub (lower (p @ ys @ q))"
  by (auto simp: contains_def lower_append)

lemma head_of_pattern:
  assumes "folder \<noteq> []"
  shows "\<exists>t. rev (dropWhile (\<lambda>c. c \<noteq> CHR ''/'') (rev (path_join folder ''*.csv''))) = folder @ t"
proof (cases "endswith folder ''/''")
  case True
  then obtain f where "folder = f @ ''/''"
    by (auto simp: endswith_def suffix_def)
  then show ?thesis
    by (simp add: path_join_def endswith_def)
next
  case False
  with assms show ?thesis
    by (simp add: path_join_def)
qed

lemma glob_dirname_keeps:
  assumes "contains ''eda'' (lower folder)"
  shows "contains ''eda'' (lower (path_head (path_join folder ''*.csv'')))
         \<and> path_head (path_join folder ''*.csv'') \<noteq> []"
proof -
  have "''eda'' \<noteq> []" and "last ''eda'' \<noteq> CHR ''/''"
    by simp_all
  with assms obtain p ys q where f: "folder = p @ ys @ q" and low: "lower ys = ''eda''"
    and ne: "ys \<noteq> []" and l: "last ys \<noteq> CHR ''/''"
    using eda_preimage[of "''eda''" folder] by blast
  from f ne have "folder \<noteq> []" by simp
  then obtain t where h: "rev (dropWhile (\<lambda>c. c \<noteq> CHR ''/'') (rev (path_join folder ''*.csv''))) = folder @ t"
    using head_of_pattern by blast
  have "last ys \<in> set (folder @ t)"
    using f ne by simp
  with l have notall: "\<not> list_all (\<lambda>c. c = CHR ''/'') (folder @ t)"
    by (auto simp: list_all_iff)
  have "path_head (path_join folder ''*.csv'') = rstrip_slash (p @ ys @ (q @ t))"
    using h notall f ne by (simp add: path_head_def Let_def)
  moreover obtain zs where "rstrip_slash (p @ ys @ (q @ t)) = p @ ys @ zs"
    using rstrip_slash_keeps[OF ne l] by blast
  ultimately have eq: "path_head (path_join folder ''*.csv'') = p @ ys @ zs"
    by simp
  show ?thesis
    using ne by (simp add: eq contains_lower_middle[OF low])
qed

lemma contains_path_join:
  assumes "contains sub (lower a)" and "\<not> prefix ''/'' b"
  shows "contains sub (lower (path_join a b))"
proof -
  from assms(1) obtain p q where "lower a = p @ sub @ q"
    by (auto simp: contains_def sublist_def)
  then show ?thesis
    using assms(2) by (auto simp: path_join_def contains_def lower_append sublist_def)
qed

lemma glob_csv_contains:
  assumes "contains ''eda'' (lower folder)" and "list_all (\<lambda>name. CHR ''/'' \<notin> set name) listing"
    and "file \<in> set (glob_csv folder listing)"
  shows "contains ''eda'' (lower file)"
proof -
  let ?d = "path_head (path_join folder ''*.csv'')"
  from assms(1) have d: "contains ''eda'' (lower ?d)" and ne: "?d \<noteq> []"
    using glob_dirname_keeps by blast+
  from assms(3) ne obtain name where n: "name \<in> set listing" and fl: "file = path_join ?d name"
    by (auto simp: glob_csv_def Let_def)
  from n assms(2) have "CHR ''/'' \<notin> set name"
    by (auto simp: list_all_iff)
  then have "\<not> prefix ''/'' name"
    by (auto simp: prefix_def)
  with d fl show ?thesis
    by (simp add: contains_path_join)
qed

text \<open>
  Claim C10. When the lower-cased path of the data folder contains \<open>eda\<close>, the loaders
  of \<open>ShowInsights\<close> and \<open>ShowLevelAnalysis\<close> read no file, whatever the names in
  the folder (names as \<open>os.listdir\<close> gives them, without a slash), because they test
  the joined path; \<open>load_csv_data\<close> tests the name alone and reads every \<open>.csv\<close> file
  of the same folder whose own name has no \<open>eda\<close>.
\<close>

theorem eda_in_folder_path:
  assumes "contains ''eda'' (lower data_folder)"
    and "list_all (\<lambda>name. CHR ''/'' \<notin> set name) listing"
  shows "load_data_files data_folder listing = [] \<and>
         map snd (load_csv_data_files data_folder listing) =
           map (path_join data_folder)
             (filter (\<lambda>f. endswith f ''.csv'' \<and> \<not> contains ''eda'' (lower f)) listing)"
proof -
  have "filter (\<lambda>file. endswith file ''.csv'' \<and> \<not> contains ''eda'' (lower file))
          (glob_csv data_folder listing) = []"
    using glob_csv_contains[OF assms] by (auto simp: filter_empty_conv)
  then show ?thesis
    by (simp add: load_data_files_def load_csv_data_files_def comp_def)
qed

text \<open>The folder \<open>src/EDA_data\<close> with three files, one of them named after the marker.\<close>

theorem eda_in_folder_path_witness:
  "contains ''eda'' (lower ''src/EDA_data'') \<and>
   list_all (\<lambda>name. CHR ''/'' \<notin> set name) [''Monday.csv'', ''eda_notes.csv'', ''Friday.csv''] \<and>
   load_data_files ''src/EDA_data'' [''Monday.csv'', ''eda_notes.csv'', ''Friday.csv''] = [] \<and>
   load_csv_data_files ''src/EDA_data'' [''Monday.csv'', ''eda_notes.csv'', ''Friday.csv''] =
     [(''Monday'', ''src/EDA_data/Monday.csv''), (''Friday'', ''src/EDA_data/Friday.csv'')]"
proof -
  have a: "contains ''eda'' (lower ''src/EDA_data'')"
    by code_simp
  have b: "list_all (\<lambda>name. CHR ''/'' \<notin> set name) [''Monday.csv'', ''eda_notes.csv'', ''Friday.csv'']"
    by simp
  have c: "load_csv_data_files ''src/EDA_data'' [''Monday.csv'', ''eda_notes.csv'', ''Friday.csv''] =
     [(''Monday'', ''src/EDA_data/Monday.csv''), (''Friday'', ''src/EDA_data/Friday.csv'')]"
    by code_simp
  from eda_in_folder_path[OF a b] have d: "load_data_files ''src/EDA_data'' [''Monday.csv'', ''eda_notes.csv'', ''Friday.csv''] = []"
    by (rule conjunct1)
  from a b d c show ?thesis
    by (intro conjI)
qed

section \<open>Properties of the numeric conversions\<close>

lemma collect_Inl:
  "r \<in> set rs \<Longrightarrow> f r = Inl e \<Longrightarrow> \<exists>e'. collect f rs = Inl e'"
  by (induction rs) (auto simp: bind_def split: sum.splits)

lemma collect_Inr:
  "(\<And>r. r \<in> set rs \<Longrightarrow> \<exists>v. f r = Inr v) \<Longrightarrow> collect f rs = Inr (map (\<lambda>r. projr (f r)) rs)"
proof (induction rs)
  case Nil
  then show ?case by simp
next
  case (Cons r rs)
  then obtain v where "f r = Inr v" by auto
  moreover from Cons have "collect f rs = Inr (map (\<lambda>r. projr (f r)) rs)" by simp
  ultimately show ?case by (simp add: bind_def)
qed

lemma sales_float_error: "sales_float B row = Inl e \<Longrightarrow> e = ValueError"
  by (auto simp: sales_float_def split: option.splits)

lemma collect_sales_error: "collect (sales_float B) rs = Inl e \<Longrightarrow> e = ValueError"
  by (induction rs arbitrary: e) (auto simp: bind_def split: sum.splits dest: sales_float_error)

lemma ticket_int_error: "ticket_int B d row = Inl e \<Longrightarrow> e = ValueError"
  by (auto simp: ticket_int_def split: option.splits)

lemma collect_ticket_error: "collect (ticket_int B d) rs = Inl e \<Longrightarrow> e = ValueError"
  by (induction rs arbitrary: e) (auto simp: bind_def split: sum.splits dest: ticket_int_error)

lemma total_revenue_unparseable:
  assumes "row \<in> set data" and "row ''Gross sales'' = Some s" and "s \<noteq> []"
    and "py_float B s = None"
  shows "total_revenue B data = Inl ValueError"
proof -
  define rows where "rows = filter (\<lambda>row. truthy row ''Gross sales'') data"
  have t: "truthy row ''Gross sales''"
    using assms(2,3) by (simp add: truthy_def)
  have m: "row \<in> set rows"
    using assms(1) t by (simp add: rows_def)
  have "sales_float B row = Inl ValueError"
    using assms(2,4) by (simp add: sales_float_def)
  with m have "\<exists>e. collect (sales_float B) rows = Inl e"
    by (rule collect_Inl[of row rows "sales_float B" ValueError])
  then obtain e where e: "collect (sales_float B) rows = Inl e" ..
  then have "e = ValueError" by (rule collect_sales_error)
  with e show ?thesis by (simp add: total_revenue_def bind_def rows_def)
qed

lemma total_tickets_unparseable:
  assumes "row \<in> set data" and "row ''Ticket quantity'' = Some s" and "py_int B s = None"
  shows "total_tickets B data = Inl ValueError"
proof -
  have "ticket_int B 0 row = Inl ValueError"
    using assms(2,3) by (simp add: ticket_int_def)
  with assms(1) have "\<exists>e. collect (ticket_int B 0) data = Inl e"
    by (rule collect_Inl[of row data "ticket_int B 0" ValueError])
  then obtain e where e: "collect (ticket_int B 0) data = Inl e" ..
  then have "e = ValueError" by (rule collect_ticket_error)
  with e show ?thesis by (simp add: total_tickets_def bind_def)
qed

lemma analyze_data_unparseable:
  assumes "row \<in> set data"
    and "(\<exists>s. row ''Gross sales'' = Some s \<and> s \<noteq> [] \<and> py_float B s = None)
         \<or> (\<exists>s. row ''Ticket quantity'' = Some s \<and> py_int B s = None)"
  shows "analyze_data B data = Inl ValueError"
proof -
  have err: "e = ValueError" if "total_tickets B data = Inl e" for e
    using that
    by (auto simp: total_tickets_def bind_def split: sum.splits dest: collect_ticket_error)
  from assms(2) show ?thesis
  proof
    assume "\<exists>s. row ''Gross sales'' = Some s \<and> s \<noteq> [] \<and> py_float B s = None"
    then obtain s where "row ''Gross sales'' = Some s" and "s \<noteq> []" and "py_float B s = None"
      by (elim exE conjE)
    with assms(1) have r: "total_revenue B data = Inl ValueError"
      by (rule total_revenue_unparseable)
    show ?thesis
    proof (cases "total_tickets B data")
      case (Inl e)
      with err[OF Inl] show ?thesis by (simp add: analyze_data_def bind_def)
    next
      case (Inr n)
      with r show ?thesis by (simp add: analyze_data_def bind_def)
    qed
  next
    assume "\<exists>s. row ''Ticket quantity'' = Some s \<and> py_int B s = None"
    then obtain s where "row ''Ticket quantity'' = Some s" and "py_int B s = None"
      by (elim exE conjE)
    with assms(1) have "total_tickets B data = Inl ValueError"
      by (rule total_tickets_unparseable)
    then show ?thesis by (simp add: analyze_data_def bind_def)
  qed
qed

text \<open>
  Claim C5, at two inputs where the code falls short of it. \<open>prepare_data\<close> turns the
  amount \<open>abc\<close> into a missing cell, as the claim says. \<open>analyze_data\<close> raises
  \<open>ValueError\<close> on the same row at \<open>float('abc')\<close> (line 40), and on a row whose
  ticket quantity is \<open>two\<close> at \<open>int('two')\<close> (line 39); neither conversion is
  guarded there, though the one in the customer loop of the same function is.
\<close>

theorem analyze_data_unparseable_sales:
  "to_numeric_coerce plain_pandas (Some ''abc'') = None \<and>
   analyze_data plain_builtins
     [order ''1001'' ''Sunday'' ''2024-01-01 10:00:00'' ''2024-01-07'' ''a@x.com'' ''2'' ''abc'']
     = Inl ValueError \<and>
   analyze_data plain_builtins
     [order ''1002'' ''Sunday'' ''2024-01-01 10:00:00'' ''2024-01-07'' ''a@x.com'' ''two'' ''20.00'']
     = Inl ValueError"
proof -
  have "to_numeric_coerce plain_pandas (Some ''abc'') = None"
    by (simp add: to_numeric_coerce_def plain_pandas_def read_simps)
  moreover have "analyze_data plain_builtins
     [order ''1001'' ''Sunday'' ''2024-01-01 10:00:00'' ''2024-01-07'' ''a@x.com'' ''2'' ''abc'']
     = Inl ValueError"
    by (rule analyze_data_unparseable[where row =
          "order ''1001'' ''Sunday'' ''2024-01-01 10:00:00'' ''2024-01-07'' ''a@x.com'' ''2'' ''abc''"])
       (simp_all add: order_def plain_builtins_def read_simps)
  moreover have "analyze_data plain_builtins
     [order ''1002'' ''Sunday'' ''2024-01-01 10:00:00'' ''2024-01-07'' ''a@x.com'' ''two'' ''20.00'']
     = Inl ValueError"
    by (rule analyze_data_unparseable[where row =
          "order ''1002'' ''Sunday'' ''2024-01-01 10:00:00'' ''2024-01-07'' ''a@x.com'' ''two'' ''20.00''"])
       (simp_all add: order_def plain_builtins_def read_simps)
  ultimately show ?thesis
    by (intro conjI)
qed

section \<open>Properties of the show rates\<close>

lemma same_day_rate_value:
  "same_day_rate show_data =
     Inr (if show_data = [] then 0
          else real (same_day_purchases show_data) / real (length show_data))"
  by (simp add: same_day_rate_def truediv_def Let_def)

lemma free_rate_value:
  "free_rate show_data =
     Inr (if show_data = [] then 0 else real (free_tickets show_data) / real (length show_data))"
  by (simp add: free_rate_def truediv_def Let_def)

lemma show_entry_Inr: "\<exists>v. show_entry grp = Inr v"
  by (cases grp) (auto simp: show_entry_def bind_def same_day_rate_value free_rate_value)

lemma analyze_individual_shows_Inr: "\<exists>rs. analyze_individual_shows df = Inr rs"
proof -
  have "collect show_entry (groupby show_key df)
          = Inr (map (\<lambda>g. projr (show_entry g)) (groupby show_key df))"
    by (rule collect_Inr) (rule show_entry_Inr)
  then show ?thesis
    by (simp add: analyze_individual_shows_def bind_def)
qed

text \<open>
  Claim C6. The same-day rate and the free-ticket rate of a group are the guarded
  quotients: 0 for a group without orders, the share of the orders otherwise, and never
  \<open>ZeroDivisionError\<close>; so \<open>analyze_individual_shows\<close> returns for every data frame.
\<close>

theorem guarded_show_rates:
  "same_day_rate [] = Inr 0 \<and> free_rate [] = Inr 0 \<and>
   same_day_rate show_data =
     Inr (if length show_data = 0 then 0
          else real (same_day_purchases show_data) / real (length show_data)) \<and>
   free_rate show_data =
     Inr (if length show_data = 0 then 0
          else real (free_tickets show_data) / real (length show_data)) \<and>
   (\<exists>show_results. analyze_individual_shows df = Inr show_results)"
  using analyze_individual_shows_Inr[of df]
  by (simp add: same_day_rate_value free_rate_value)

section \<open>Properties of the anomaly flags\<close>

lemma mean_replicate: "0 < n \<Longrightarrow> mean (replicate n c) = c"
  by (simp add: mean_def sum_list_replicate)

lemma std_replicate: "std (replicate n c) = 0"
proof (cases "n = 0")
  case True
  then show ?thesis by (simp add: std_def mean_def)
next
  case False
  then have "mean (replicate n c) = c" by (simp add: mean_replicate)
  then show ?thesis
    by (simp add: std_def mean_def sum_list_replicate)
qed

lemma zscore_replicate: "zscore (replicate n c) = replicate n NaN"
proof (cases "n = 0")
  case True
  then show ?thesis by (simp add: zscore_def)
next
  case False
  then have "mean (replicate n c) = c" by (simp add: mean_replicate)
  then show ?thesis
    by (simp add: zscore_def std_replicate np_divide_def map_replicate_const)
qed

text \<open>
  Claim C4. When all the entries of a sequence that are not missing are equal, no entry is
  flagged, whatever the threshold: the standard deviation is 0, every standardized value
  is the NaN of \<open>0 / 0\<close>, and no NaN is above a threshold. No step of the operation
  raises.
\<close>

theorem constant_sequence_not_flagged:
  assumes "dropna data = replicate n c"
  shows "detect_anomalies data threshold = replicate n False"
  using assms by (simp add: detect_anomalies_def zscore_replicate)

theorem constant_sequence_not_flagged_witness:
  "dropna [Some 12, None, Some 12, Some 12] = replicate 3 (12 :: real) \<and>
   detect_anomalies [Some 12, None, Some 12, Some 12] 2 = [False, False, False] \<and>
   detect_anomalies [Some 12, None, Some 12, Some 12] (- 1) = [False, False, False]"
proof -
  have d: "dropna [Some 12, None, Some 12, Some 12] = replicate 3 (12 :: real)"
    by (simp add: dropna_def List.map_filter_def numeral_3_eq_3)
  have r: "replicate 3 False = [False, False, False]"
    by (simp add: numeral_3_eq_3)
  from constant_sequence_not_flagged[OF d, of 2] constant_sequence_not_flagged[OF d, of "- 1"] d r
  show ?thesis by simp
qed

section \<open>Properties of the smoothing\<close>

text \<open>
  Claim C7, as amended. With the method \<open>savgol\<close> the raw series comes back unchanged
  when the window is at least as long as the series; when it is shorter, the result is what
  the degree-3 filter returns for that window (its error, if it raises), and a filtered
  sequence of the length of the series comes back under the index of the series.
\<close>

theorem savgol_smoothing:
  "(int (length data) \<le> window \<longrightarrow> apply_smoothing F data ''savgol'' window alpha = Inr data) \<and>
   (window < int (length data) \<longrightarrow>
      apply_smoothing F data ''savgol'' window alpha =
        bind (savgol_filter F (map snd data) window 3) (\<lambda>ys. Series ys (map fst data))) \<and>
   (window < int (length data) \<longrightarrow> savgol_filter F (map snd data) window 3 = Inr ys \<longrightarrow>
      length ys = length data \<longrightarrow>
      apply_smoothing F data ''savgol'' window alpha = Inr (zip (map fst data) ys))"
  by (simp add: apply_smoothing_def bind_def Series_def)

theorem savgol_smoothing_witness:
  "int (length [(0::nat, 3::real), (1, 5)]) \<le> 5 \<and>
   apply_smoothing flat_filters [(0, 3), (1, 5)] ''savgol'' 5 0.3 = Inr [(0, 3), (1, 5)] \<and>
   (3::int) < int (length [(0::nat, 1::real), (1, 1), (2, 4), (3, 1), (4, 1)]) \<and>
   savgol_filter flat_filters (map snd [(0::nat, 1::real), (1, 1), (2, 4), (3, 1), (4, 1)]) 3 3
     = Inr [0, 0, 0, 0, 0] \<and>
   apply_smoothing flat_filters [(0, 1), (1, 1), (2, 4), (3, 1), (4, 1)] ''savgol'' 3 0.3
     = Inr [(0, 0), (1, 0), (2, 0), (3, 0), (4, 0)]"
  using savgol_smoothing[of "[(0, 3), (1, 5)]" 5 flat_filters "0.3" "[]"]
    savgol_smoothing[of "[(0, 1), (1, 1), (2, 4), (3, 1), (4, 1)]" 3 flat_filters "0.3"
      "[0, 0, 0, 0, 0]"]
  by (simp add: flat_filters_def bind_def Series_def)

text \<open>
  Claim C7 as stated fails where the window equals the length: 5 does not exceed 5, yet
  the series comes back raw and the filter is not applied.
\<close>

theorem savgol_window_equal_length_counterexample:
  "\<not> 5 > int (length [(0::nat, 1::real), (1, 1), (2, 4), (3, 1), (4, 1)]) \<and>
   apply_smoothing flat_filters [(0, 1), (1, 1), (2, 4), (3, 1), (4, 1)] ''savgol'' 5 0.3
     = Inr [(0, 1), (1, 1), (2, 4), (3, 1), (4, 1)] \<and>
   bind (savgol_filter flat_filters (map snd [(0::nat, 1::real), (1, 1), (2, 4), (3, 1), (4, 1)]) 5 3)
     (\<lambda>ys. Series ys (map fst [(0::nat, 1::real), (1, 1), (2, 4), (3, 1), (4, 1)]))
     = Inr [(0, 0), (1, 0), (2, 0), (3, 0), (4, 0)]"
  by (simp add: apply_smoothing_def flat_filters_def bind_def Series_def)

section \<open>Properties of the groupings\<close>

lemma map_filter_drop_None:
  "key r = None \<Longrightarrow> List.map_filter key (pre @ r # post) = List.map_filter key (pre @ post)"
  by (simp add: List.map_filter_def)

lemma groupby_drop_None:
  assumes "key r = None"
  shows "groupby key (pre @ r # post) = groupby key (pre @ post)"
  using assms by (simp add: groupby_def map_filter_drop_None)

lemma set_map_filter: "set (List.map_filter key df) = {k. \<exists>r \<in> set df. key r = Some k}"
  by (induction df) (auto simp: List.map_filter_simps split: option.splits)

lemma groupby_keys: "map fst (groupby key df) = sort (remdups (List.map_filter key df))"
  by (simp add: groupby_def comp_def)

lemma groupby_distinct: "distinct (map fst (groupby key df))"
  by (simp add: groupby_keys)

lemma groupby_member:
  "(k, g) \<in> set (groupby key df) \<longleftrightarrow>
     g = filter (\<lambda>r. key r = Some k) df \<and> (\<exists>r \<in> set df. key r = Some k)"
  by (auto simp: groupby_def set_map_filter)

lemma groupby_nonempty: "list_all (\<lambda>(k, g). g \<noteq> []) (groupby key df)"
proof -
  have "g \<noteq> []" if "(k, g) \<in> set (groupby key df)" for k g
  proof -
    from that obtain r where "r \<in> set df" and "key r = Some k"
      and "g = filter (\<lambda>r. key r = Some k) df"
      by (auto simp: groupby_member)
    then have "r \<in> set g" by simp
    then show ?thesis by auto
  qed
  then show ?thesis by (auto simp: list_all_iff)
qed

lemma value_counts_member:
  "(k, n) \<in> set (value_counts col df) \<longleftrightarrow>
     n = length (filter (\<lambda>r. col r = Some k) df) \<and> (\<exists>r \<in> set df. col r = Some k)"
proof -
  have "(k, n) \<in> set (value_counts col df)
          \<longleftrightarrow> (\<exists>g. (k, g) \<in> set (groupby col df) \<and> n = length g)"
    by (auto simp: value_counts_def)
  then show ?thesis
    by (auto simp: groupby_member)
qed

lemma zip_keys_filter:
  "map snd (filter (\<lambda>(k, r). k = c) (zip (map f df) df)) = filter (\<lambda>r. f r = c) df"
  by (induction df) auto

lemma booking_groups:
  "groupby_categorical observed categories (booking_windows df) df =
     (let groups = map (\<lambda>c. (c, filter (\<lambda>r. booking_window (days_before_event r) = Some c) df))
                     categories
      in if observed then filter (\<lambda>(c, g). g \<noteq> []) groups else groups)"
  by (simp add: groupby_categorical_def booking_windows_def zip_keys_filter)

lemma booking_table_all_labels: "map fst (booking_table False df) = booking_labels"
  by (simp add: booking_table_def booking_groups comp_def case_prod_unfold)

lemma booking_table_observed_labels:
  "map fst (booking_table True df) =
     filter (\<lambda>l. list_ex (\<lambda>r. booking_window (days_before_event r) = Some l) df) booking_labels"
  by (simp add: booking_table_def booking_groups comp_def case_prod_unfold filter_map
      filter_empty_conv list_ex_iff)

lemma booking_table_unobserved:
  "booking_table False df =
     map (\<lambda>l. (l, count order_id (filter (\<lambda>r. booking_window (days_before_event r) = Some l) df),
                  sum_skipna gross_sales
                    (filter (\<lambda>r. booking_window (days_before_event r) = Some l) df)))
       booking_labels"
  by (simp add: booking_table_def booking_groups comp_def)

lemma booking_table_observed:
  "booking_table True df =
     map (\<lambda>l. (l, count order_id (filter (\<lambda>r. booking_window (days_before_event r) = Some l) df),
                  sum_skipna gross_sales
                    (filter (\<lambda>r. booking_window (days_before_event r) = Some l) df)))
       (filter (\<lambda>l. list_ex (\<lambda>r. booking_window (days_before_event r) = Some l) df)
          booking_labels)"
  by (simp add: booking_table_def booking_groups comp_def filter_map filter_empty_conv
      list_ex_iff)

text \<open>
  The table of the batch reports where pandas groups with \<open>observed=False\<close>: a label
  that no order falls under has a row all the same, with the count 0 and the sum 0. The
  dashboard's table has no row for it, and a grouping over an ordinary key column holds
  no empty group.
\<close>

lemma empty_bucket_row:
  assumes "l \<in> set booking_labels"
    and "\<not> list_ex (\<lambda>r. booking_window (days_before_event r) = Some l) df"
  shows "(l, 0, 0) \<in> set (booking_analysis False df)"
    and "l \<notin> fst ` set (dashboard_booking_analysis df)"
    and "l \<notin> fst ` set (booking_analysis True df)"
proof -
  from assms(2) have "filter (\<lambda>r. booking_window (days_before_event r) = Some l) df = []"
    by (simp add: filter_empty_conv list_ex_iff)
  then have "(l, count order_id (filter (\<lambda>r. booking_window (days_before_event r) = Some l) df),
                 sum_skipna gross_sales
                   (filter (\<lambda>r. booking_window (days_before_event r) = Some l) df)) = (l, 0, 0)"
    by (simp add: count_def sum_skipna_def List.map_filter_def)
  with assms(1) show "(l, 0, 0) \<in> set (booking_analysis False df)"
    unfolding booking_analysis_def booking_table_unobserved by (metis (no_types, lifting) imageI list.set_map)
  have "map fst (booking_table True df) =
          filter (\<lambda>l. list_ex (\<lambda>r. booking_window (days_before_event r) = Some l) df)
            booking_labels"
    by (rule booking_table_observed_labels)
  then have "fst ` set (booking_table True df) =
          set (filter (\<lambda>l. list_ex (\<lambda>r. booking_window (days_before_event r) = Some l) df)
                 booking_labels)"
    by (metis list.set_map)
  with assms(2) show "l \<notin> fst ` set (dashboard_booking_analysis df)"
    and "l \<notin> fst ` set (booking_analysis True df)"
    by (simp_all add: dashboard_booking_analysis_def booking_analysis_def)
qed

lemma week_ahead_tables:
  "booking_table False
     [\<lparr> order_id = Some ''1001'', order_date = Some 1704103200,
        event_start_date = Some 1704585600, day_of_week = ''Sunday'',
        buyer_email = Some ''a@x.com'', payment_type = Some ''Paid'', gross_sales = Some 20,
        days_before_event = Some 5, customer_id = Some ''a@x.com'' \<rparr>] =
   [(''Same Day'', 0, 0), (''1 Day'', 0, 0), (''2-3 Days'', 0, 0), (''4-7 Days'', 1, 20),
    (''1-2 Weeks'', 0, 0), (''2-4 Weeks'', 0, 0), (''1+ Month'', 0, 0)]"
  "booking_table True
     [\<lparr> order_id = Some ''1001'', order_date = Some 1704103200,
        event_start_date = Some 1704585600, day_of_week = ''Sunday'',
        buyer_email = Some ''a@x.com'', payment_type = Some ''Paid'', gross_sales = Some 20,
        days_before_event = Some 5, customer_id = Some ''a@x.com'' \<rparr>] =
   [(''4-7 Days'', 1, 20)]"
  by (simp_all add: booking_table_def groupby_categorical_def booking_windows_def
      booking_window_value booking_labels_def count_def sum_skipna_def List.map_filter_def)

text \<open>
  Claim C3, at an input where the batch reports fall short of it. One order, bought five
  days ahead for 20.00: the dashboard, which groups the booking windows with
  \<open>observed=True\<close>, shows the one row of the bucket \<open>4-7 Days\<close>, as the claim says.
  \<open>ShowInsights\<close> and \<open>ShowLevelAnalysis\<close> call the same \<open>groupby\<close> without
  \<open>observed\<close>; where pandas then groups with \<open>observed=False\<close> (its default before
  3.0) their table has seven rows, six of them filled with zeros, and where it groups with
  \<open>observed=True\<close> their table is the dashboard's.
\<close>

theorem booking_analysis_zero_rows:
  "(case prepare_data plain_pandas
           [order ''1001'' ''Sunday'' ''2024-01-01 10:00:00'' ''2024-01-07'' ''a@x.com'' ''2''
              ''20.00''] of
      Inl e \<Rightarrow> False
    | Inr df \<Rightarrow>
        map days_before_event df = [Some 5] \<and>
        dashboard_booking_analysis df = [(''4-7 Days'', 1, 20)] \<and>
        booking_analysis True df = [(''4-7 Days'', 1, 20)] \<and>
        booking_analysis False df =
          [(''Same Day'', 0, 0), (''1 Day'', 0, 0), (''2-3 Days'', 0, 0), (''4-7 Days'', 1, 20),
           (''1-2 Weeks'', 0, 0), (''2-4 Weeks'', 0, 0), (''1+ Month'', 0, 0)])"
  by (simp add: week_ahead_frame week_ahead_tables booking_analysis_def
      dashboard_booking_analysis_def)

section \<open>Properties of the customer groupings\<close>

lemma missing_email_text:
  "cell row ''Buyer email'' = None \<Longrightarrow> get_or row ''Buyer email'' [] = []"
  by (auto simp: cell_def get_or_def split: option.splits if_splits)

lemma missing_email_falsy:
  "cell row ''Buyer email'' = None \<Longrightarrow> \<not> truthy row ''Buyer email''"
  by (auto simp: cell_def truthy_def split: option.splits if_splits)

lemma collect_length: "collect f xs = Inr ys \<Longrightarrow> length ys = length xs"
  by (induction xs arbitrary: ys) (auto simp: bind_def split: sum.splits)

lemma column_length: "column df col = Inr cells \<Longrightarrow> length cells = length df"
  by (auto simp: column_def split: if_splits)

lemma column_cells: "column df col = Inr cells \<Longrightarrow> cells = map (\<lambda>row. cell row col) df"
  by (auto simp: column_def split: if_splits)

lemma str_lower_cells: "str_lower cells = Inr ids \<Longrightarrow> ids = map (map_option lower) cells"
  by (auto simp: str_lower_def split: if_splits)

lemma customer_id_prepared_row: "customer_id (prepared_row P x) = snd (snd (snd x))"
  by (cases x) (simp add: prepared_row_def)

lemma prepare_data_customer_ids:
  assumes "prepare_data P df = Inr frame"
  shows "map customer_id frame = map (\<lambda>row. map_option lower (cell row ''Buyer email'')) df"
proof -
  from assms obtain order_texts order_dates event_texts event_dates emails customer_ids where
    c1: "column df ''Order date'' = Inr order_texts" and
    d1: "collect (to_datetime_cell P) order_texts = Inr order_dates" and
    c2: "column df ''Event start date'' = Inr event_texts" and
    d2: "collect (to_datetime_cell P) event_texts = Inr event_dates" and
    c3: "column df ''Buyer email'' = Inr emails" and
    l: "str_lower emails = Inr customer_ids" and
    frame: "frame = map (prepared_row P) (zip df (zip order_dates (zip event_dates customer_ids)))"
    by (auto simp: prepare_data_def bind_def split: sum.splits)
  have ids: "customer_ids = map (\<lambda>row. map_option lower (cell row ''Buyer email'')) df"
    using column_cells[OF c3] str_lower_cells[OF l] by simp
  have n1: "length order_dates = length df"
    using collect_length[OF d1] column_length[OF c1] by simp
  have n2: "length event_dates = length df"
    using collect_length[OF d2] column_length[OF c2] by simp
  have n3: "length customer_ids = length df"
    using ids by simp
  have "map customer_id frame
          = map (snd \<circ> (snd \<circ> snd)) (zip df (zip order_dates (zip event_dates customer_ids)))"
    by (simp add: frame customer_id_prepared_row comp_def)
  also have "\<dots> = map snd (map snd (map snd
                      (zip df (zip order_dates (zip event_dates customer_ids)))))"
    by simp
  also have "\<dots> = customer_ids"
    using n1 n2 n3 by (simp add: map_snd_zip)
  finally show ?thesis
    using ids by simp
qed

lemma customer_analysis_drop_None:
  "customer_id r = None \<Longrightarrow> customer_analysis (df1 @ r # df2) = customer_analysis (df1 @ df2)"
  by (simp add: customer_analysis_def groupby_drop_None)

lemma value_counts_drop_None:
  "col r = None \<Longrightarrow> value_counts col (df1 @ r # df2) = value_counts col (df1 @ df2)"
  by (simp add: value_counts_def groupby_drop_None)

lemma nunique_drop_None:
  "col r = None \<Longrightarrow> nunique col (df1 @ r # df2) = nunique col (df1 @ df2)"
  by (simp add: nunique_def map_filter_drop_None)

text \<open>
  Claim C8, as amended. A record without a buyer email has no customer identifier
  (\<open>str.lower\<close> of a missing cell is missing, not the empty text), and it is left out
  of every grouping by customer: the customer table, the order counts and the number of
  distinct customers of the pandas reports, and the order counter and the number of
  customers of the batch report, are the same with and without the record.
\<close>

theorem missing_email_left_out:
  assumes "prepare_data P (data1 @ row # data2) = Inr df"
    and "cell row ''Buyer email'' = None"
  shows "customer_id (df ! length data1) = None \<and>
         customer_analysis df =
           customer_analysis (take (length data1) df @ drop (Suc (length data1)) df) \<and>
         value_counts customer_id df =
           value_counts customer_id (take (length data1) df @ drop (Suc (length data1)) df) \<and>
         nunique customer_id df =
           nunique customer_id (take (length data1) df @ drop (Suc (length data1)) df) \<and>
         customer_orders (data1 @ row # data2) = customer_orders (data1 @ data2) \<and>
         unique_customers (data1 @ row # data2) = unique_customers (data1 @ data2)"
proof -
  let ?n = "length data1"
  have ids: "map customer_id df
               = map (\<lambda>row. map_option lower (cell row ''Buyer email'')) (data1 @ row # data2)"
    using assms(1) by (rule prepare_data_customer_ids)
  then have len: "length df = length (data1 @ row # data2)"
    by (metis length_map)
  then have n: "?n < length df"
    by simp
  have "customer_id (df ! ?n) = map customer_id df ! ?n"
    using n by simp
  also have "\<dots> = map_option lower (cell row ''Buyer email'')"
    by (simp add: ids nth_append)
  finally have none: "customer_id (df ! ?n) = None"
    using assms(2) by simp
  have split: "df = take ?n df @ df ! ?n # drop (Suc ?n) df"
    using n by (rule id_take_nth_drop)
  have table: "customer_analysis df = customer_analysis (take ?n df @ drop (Suc ?n) df)"
    using customer_analysis_drop_None[of "df ! ?n" "take ?n df" "drop (Suc ?n) df"] none split
    by simp
  have counts: "value_counts customer_id df
                  = value_counts customer_id (take ?n df @ drop (Suc ?n) df)"
    using value_counts_drop_None[of customer_id "df ! ?n" "take ?n df" "drop (Suc ?n) df"] none split
    by simp
  have uniq: "nunique customer_id df = nunique customer_id (take ?n df @ drop (Suc ?n) df)"
    using nunique_drop_None[of customer_id "df ! ?n" "take ?n df" "drop (Suc ?n) df"] none split
    by simp
  have "customer_emails (data1 @ row # data2) = customer_emails (data1 @ data2)"
    using missing_email_text[OF assms(2)] by (simp add: customer_emails_def lower_Nil)
  then have orders: "customer_orders (data1 @ row # data2) = customer_orders (data1 @ data2)"
    by (simp add: customer_orders_def)
  have "unique_customers (data1 @ row # data2) = unique_customers (data1 @ data2)"
    using missing_email_falsy[OF assms(2)] by (simp add: unique_customers_def)
  with none table counts uniq orders show ?thesis
    by (intro conjI)
qed

lemma one_customer_orders:
  "customer_orders
     [order ''1001'' ''Sunday'' ''2024-01-01 10:00:00'' ''2024-01-07'' ''A@X.com'' ''2'' ''20.00'']
     = [(''a@x.com'', 1)]"
  by (simp add: customer_orders_def customer_emails_def get_or_def Counter_def order_def lower_email)

theorem missing_email_left_out_witness:
  "cell (order ''1002'' ''Sunday'' ''2024-01-01 10:00:00'' ''2024-01-07'' [] ''2'' ''20.00'')
     ''Buyer email'' = None \<and>
   (case prepare_data plain_pandas
           ([order ''1001'' ''Sunday'' ''2024-01-01 10:00:00'' ''2024-01-07'' ''A@X.com'' ''2'' ''20.00'']
            @ order ''1002'' ''Sunday'' ''2024-01-01 10:00:00'' ''2024-01-07'' [] ''2'' ''20.00'' # []) of
      Inl e \<Rightarrow> False
    | Inr df \<Rightarrow> customer_id (df ! 1) = None) \<and>
   customer_orders
     ([order ''1001'' ''Sunday'' ''2024-01-01 10:00:00'' ''2024-01-07'' ''A@X.com'' ''2'' ''20.00'']
      @ order ''1002'' ''Sunday'' ''2024-01-01 10:00:00'' ''2024-01-07'' [] ''2'' ''20.00'' # [])
     = [(''a@x.com'', 1)]"
proof -
  let ?a = "order ''1001'' ''Sunday'' ''2024-01-01 10:00:00'' ''2024-01-07'' ''A@X.com'' ''2'' ''20.00''"
  let ?b = "order ''1002'' ''Sunday'' ''2024-01-01 10:00:00'' ''2024-01-07'' [] ''2'' ''20.00''"
  let ?df = "[\<lparr> order_id = Some ''1001'', order_date = Some 1704103200,
           event_start_date = Some 1704585600, day_of_week = ''Sunday'',
           buyer_email = Some ''A@X.com'', payment_type = Some ''Paid'', gross_sales = Some 20,
           days_before_event = Some 5, customer_id = Some ''a@x.com'' \<rparr>,
        \<lparr> order_id = Some ''1002'', order_date = Some 1704103200,
           event_start_date = Some 1704585600, day_of_week = ''Sunday'',
           buyer_email = None, payment_type = Some ''Paid'', gross_sales = Some 20,
           days_before_event = Some 5, customer_id = None \<rparr>]"
  have c: "cell ?b ''Buyer email'' = None"
    by (simp add: cell_def order_def)
  have p: "prepare_data plain_pandas ([?a] @ ?b # []) = Inr ?df"
    using no_email_frame by simp
  from missing_email_left_out[OF p c]
  have "customer_id (?df ! length [?a]) = None"
    and "customer_orders ([?a] @ ?b # []) = customer_orders ([?a] @ [])"
    by blast+
  with c p one_customer_orders show ?thesis
    by simp
qed

text \<open>
  Claim C8 as stated fails on two orders, one of \<open>A@X.com\<close> and one without an email:
  the second has no identifier at all, and the customer groupings hold the one customer
  \<open>a@x.com\<close> and no bucket for the other order.
\<close>

theorem missing_email_counterexample:
  "(case prepare_data plain_pandas
           [order ''1001'' ''Sunday'' ''2024-01-01 10:00:00'' ''2024-01-07'' ''A@X.com'' ''2'' ''20.00'',
            order ''1002'' ''Sunday'' ''2024-01-01 10:00:00'' ''2024-01-07'' [] ''2'' ''20.00''] of
      Inl e \<Rightarrow> False
    | Inr df \<Rightarrow>
        map customer_id df = [Some ''a@x.com'', None] \<and>
        map cust_id (customer_analysis df) = [''a@x.com''] \<and>
        map total_orders (customer_analysis df) = [1] \<and>
        value_counts customer_id df = [(''a@x.com'', 1)]) \<and>
   customer_orders
     [order ''1001'' ''Sunday'' ''2024-01-01 10:00:00'' ''2024-01-07'' ''A@X.com'' ''2'' ''20.00'',
      order ''1002'' ''Sunday'' ''2024-01-01 10:00:00'' ''2024-01-07'' [] ''2'' ''20.00'']
     = [(''a@x.com'', 1)]"
proof -
  have "customer_orders
     [order ''1001'' ''Sunday'' ''2024-01-01 10:00:00'' ''2024-01-07'' ''A@X.com'' ''2'' ''20.00'',
      order ''1002'' ''Sunday'' ''2024-01-01 10:00:00'' ''2024-01-07'' [] ''2'' ''20.00'']
     = [(''a@x.com'', 1)]"
    by (simp add: customer_orders_def customer_emails_def get_or_def Counter_def order_def
        lower_email lower_Nil)
  then show ?thesis
    by (simp add: no_email_frame customer_analysis_def value_counts_def groupby_def
        List.map_filter_def count_def)
qed

section \<open>Properties of the counters\<close>

lemma dict_incr_keys:
  "map fst (dict_incr k d) = (if k \<in> fst ` set d then map fst d else map fst d @ [k])"
  by (induction d) (auto split: if_splits)

lemma dict_incr_distinct: "distinct (map fst d) \<Longrightarrow> distinct (map fst (dict_incr k d))"
  by (simp add: dict_incr_keys)

lemma map_of_dict_incr:
  "map_of (dict_incr k d) k' =
     (if k' = k then Some (case map_of d k of None \<Rightarrow> 1 | Some c \<Rightarrow> c + 1) else map_of d k')"
  by (induction d) auto

lemma foldl_dict_incr_distinct:
  "distinct (map fst d) \<Longrightarrow> distinct (map fst (foldl (\<lambda>d k. dict_incr k d) d xs))"
  by (induction xs arbitrary: d) (simp_all add: dict_incr_distinct)

lemma map_of_foldl_dict_incr:
  "map_of (foldl (\<lambda>d k. dict_incr k d) d xs) k =
     (if k \<in> set xs \<or> map_of d k \<noteq> None
      then Some ((case map_of d k of None \<Rightarrow> 0 | Some c \<Rightarrow> c) + count_list xs k)
      else None)"
proof (induction xs arbitrary: d)
  case Nil
  then show ?case by (auto split: option.splits)
next
  case (Cons x xs)
  show ?case
    by (simp add: Cons.IH map_of_dict_incr split: option.splits)
qed

lemma Counter_distinct: "distinct (map fst (Counter xs))"
  by (simp add: Counter_def foldl_dict_incr_distinct)

lemma map_of_Counter:
  "map_of (Counter xs) k = (if k \<in> set xs then Some (count_list xs k) else None)"
  by (simp add: Counter_def map_of_foldl_dict_incr)

lemma set_Counter: "set (Counter xs) = (\<lambda>k. (k, count_list xs k)) ` set xs"
proof -
  have "(k, c) \<in> set (Counter xs) \<longleftrightarrow> k \<in> set xs \<and> c = count_list xs k" for k c
    using map_of_eq_Some_iff[OF Counter_distinct, of xs k c]
    by (auto simp: map_of_Counter split: if_splits)
  then show ?thesis by auto
qed

lemma length_filter_counts:
  "length (filter P (map snd (Counter xs))) = card {k \<in> set xs. P (count_list xs k)}"
proof -
  have d: "distinct (Counter xs)"
    using Counter_distinct[of xs] by (rule distinct_map[THEN iffD1, THEN conjunct1])
  have "length (filter P (map snd (Counter xs))) = length (filter (\<lambda>e. P (snd e)) (Counter xs))"
    by (simp add: filter_map comp_def)
  also have "\<dots> = card (set (filter (\<lambda>e. P (snd e)) (Counter xs)))"
    using d by (intro distinct_card[symmetric] distinct_filter)
  also have "set (filter (\<lambda>e. P (snd e)) (Counter xs))
               = (\<lambda>k. (k, count_list xs k)) ` {k \<in> set xs. P (count_list xs k)}"
    by (auto simp: set_Counter)
  also have "card \<dots> = card {k \<in> set xs. P (count_list xs k)}"
    by (rule card_image) (simp add: inj_on_def)
  finally show ?thesis .
qed


section \<open>Properties of the repeat-customer views\<close>

lemma count_Nil: "count col [] = 0"
  by (simp add: count_def List.map_filter_def)

lemma case_study_member:
  "cid \<in> cust_id ` set (case_study_customers df) \<longleftrightarrow>
     3 \<le> count order_id (filter (\<lambda>r. customer_id r = Some cid) df)"
proof
  assume "cid \<in> cust_id ` set (case_study_customers df)"
  then obtain g where "(cid, g) \<in> set (groupby customer_id df)" and "3 \<le> count order_id g"
    by (auto simp: case_study_customers_def customer_analysis_def)
  then show "3 \<le> count order_id (filter (\<lambda>r. customer_id r = Some cid) df)"
    by (simp add: groupby_member)
next
  let ?g = "filter (\<lambda>r. customer_id r = Some cid) df"
  assume three: "3 \<le> count order_id ?g"
  then have "?g \<noteq> []"
    by (auto simp: count_Nil)
  then have "\<exists>r \<in> set df. customer_id r = Some cid"
    by (auto simp: filter_empty_conv)
  then have "(cid, ?g) \<in> set (groupby customer_id df)"
    by (simp add: groupby_member)
  with three have "\<lparr> cust_id = cid, total_orders = count order_id ?g,
                    total_spent = sum_skipna gross_sales ?g,
                    days_attended = set (map day_of_week ?g) \<rparr>
                   \<in> set (case_study_customers df)"
    by (force simp: case_study_customers_def customer_analysis_def)
  then show "cid \<in> cust_id ` set (case_study_customers df)"
    by force
qed

lemma returning_member:
  "cid \<in> set (returning_customer_ids df) \<longleftrightarrow>
     2 \<le> length (filter (\<lambda>r. customer_id r = Some cid) df)"
proof
  assume "cid \<in> set (returning_customer_ids df)"
  then obtain n where "(cid, n) \<in> set (value_counts customer_id df)" and "1 < n"
    by (auto simp: returning_customer_ids_def)
  then show "2 \<le> length (filter (\<lambda>r. customer_id r = Some cid) df)"
    by (simp add: value_counts_member)
next
  let ?g = "filter (\<lambda>r. customer_id r = Some cid) df"
  assume two: "2 \<le> length ?g"
  then have "?g \<noteq> []" by auto
  then have "\<exists>r \<in> set df. customer_id r = Some cid"
    by (auto simp: filter_empty_conv)
  then have "(cid, length ?g) \<in> set (value_counts customer_id df)"
    by (simp add: value_counts_member)
  with two show "cid \<in> set (returning_customer_ids df)"
    by (force simp: returning_customer_ids_def)
qed

lemma distinct_map_insort_key:
  "distinct (map g (insort_key f x xs)) = (g x \<notin> g ` set xs \<and> distinct (map g xs))"
  by (induction xs) (auto simp: set_insort_key)

lemma distinct_map_sort_key: "distinct (map g (sort_key f xs)) = distinct (map g xs)"
  by (induction xs) (simp_all add: distinct_map_insort_key)

lemma value_counts_distinct: "distinct (map fst (value_counts col df))"
proof -
  have "map fst (map (\<lambda>(k, g). (k, length g)) (groupby col df)) = map fst (groupby col df)"
    by (simp add: comp_def case_prod_unfold)
  then show ?thesis
    by (simp only: value_counts_def distinct_map_sort_key groupby_distinct)
qed

lemma returning_customer_ids_distinct: "distinct (returning_customer_ids df)"
  using value_counts_distinct[of customer_id df]
  by (simp add: returning_customer_ids_def distinct_map_filter)

lemma recommendation_repeat_customers_card:
  "recommendation_repeat_customers df =
     card {cid. 2 \<le> length (filter (\<lambda>r. customer_id r = Some cid) df)}"
proof -
  have "recommendation_repeat_customers df = length (returning_customer_ids df)"
    by (simp add: recommendation_repeat_customers_def returning_customer_ids_def)
  also have "\<dots> = card (set (returning_customer_ids df))"
    using returning_customer_ids_distinct by (rule distinct_card[symmetric])
  also have "set (returning_customer_ids df)
               = {cid. 2 \<le> length (filter (\<lambda>r. customer_id r = Some cid) df)}"
    using returning_member by blast
  finally show ?thesis .
qed

lemma repeat_customers_card:
  "repeat_customers data =
     card {e \<in> set (customer_emails data). 2 \<le> count_list (customer_emails data) e}"
proof -
  have "repeat_customers data
          = length (filter (\<lambda>count. 1 < count) (map snd (Counter (customer_emails data))))"
    by (simp add: repeat_customers_def customer_orders_def sum_list_triv)
  also have "\<dots> = card {e \<in> set (customer_emails data). 1 < count_list (customer_emails data) e}"
    by (rule length_filter_counts)
  also have "{e \<in> set (customer_emails data). 1 < count_list (customer_emails data) e}
               = {e \<in> set (customer_emails data). 2 \<le> count_list (customer_emails data) e}"
    by auto
  finally show ?thesis .
qed

text \<open>
  The thresholds of the repeat-customer views. The case studies, and with them the count
  and the rate of repeat customers on the dashboard, keep a customer exactly when the
  customer has at least 3 orders (rows with an order number) in the frame. The repeat
  rate of the recommendations counts the customers with at least 2 rows, and the batch
  report counts the emails that occur at least twice.
\<close>

lemma case_study_customers_distinct: "distinct (map cust_id (case_study_customers df))"
proof -
  have "map cust_id (customer_analysis df) = map fst (groupby customer_id df)"
    by (simp add: customer_analysis_def comp_def case_prod_unfold)
  then have "distinct (map cust_id (customer_analysis df))"
    by (simp only: groupby_distinct)
  then show ?thesis
    by (simp add: case_study_customers_def distinct_map_filter)
qed

lemma case_study_customers_card:
  "length (case_study_customers df) =
     card {cid. 3 \<le> count order_id (filter (\<lambda>r. customer_id r = Some cid) df)}"
proof -
  have "length (case_study_customers df) = length (map cust_id (case_study_customers df))"
    by simp
  also have "\<dots> = card (set (map cust_id (case_study_customers df)))"
    using case_study_customers_distinct by (rule distinct_card[symmetric])
  also have "set (map cust_id (case_study_customers df))
               = {cid. 3 \<le> count order_id (filter (\<lambda>r. customer_id r = Some cid) df)}"
    using case_study_member[of _ df] by (simp only: set_map) blast
  finally show ?thesis .
qed

lemma repeat_customer_thresholds:
  "(cid \<in> cust_id ` set (case_study_customers df) \<longleftrightarrow>
      3 \<le> count order_id (filter (\<lambda>r. customer_id r = Some cid) df)) \<and>
   length (case_study_customers df) =
     card {cid. 3 \<le> count order_id (filter (\<lambda>r. customer_id r = Some cid) df)} \<and>
   recommendation_repeat_customers df =
     card {cid. 2 \<le> length (filter (\<lambda>r. customer_id r = Some cid) df)} \<and>
   repeat_customers data =
     card {e \<in> set (customer_emails data). 2 \<le> count_list (customer_emails data) e}"
  using case_study_member case_study_customers_card recommendation_repeat_customers_card
    repeat_customers_card by blast

text \<open>
  Claim C2, at an input where the reports fall short of it. One customer with two orders,
  placed as \<open>A@X.com\<close> and as \<open>a@x.com\<close>: the case studies (\<open>3+ orders\<close>) do not take
  the customer and the dashboard shows a repeat rate of 0 percent, as the claim says. The
  recommendations of \<open>ShowInsights\<close> and the batch report count the same customer as a
  repeat customer and give a repeat rate of 100 percent.
\<close>

theorem two_order_customer_repeat_rates:
  "(case prepare_data plain_pandas
           [order ''1001'' ''Sunday'' ''2024-01-01 10:00:00'' ''2024-01-07'' ''A@X.com'' ''2'' ''20.00'',
            order ''1002'' ''Sunday'' ''2024-01-01 10:00:00'' ''2024-01-07'' ''a@x.com'' ''2'' ''20.00''] of
      Inl e \<Rightarrow> False
    | Inr df \<Rightarrow>
        map cust_id (customer_analysis df) = [''a@x.com''] \<and>
        map total_orders (customer_analysis df) = [2] \<and>
        case_study_customers df = [] \<and>
        dashboard_repeat_rate df = Inr 0 \<and>
        recommendation_repeat_customers df = 1 \<and>
        recommendation_repeat_rate df = Inr 100) \<and>
   customer_orders
     [order ''1001'' ''Sunday'' ''2024-01-01 10:00:00'' ''2024-01-07'' ''A@X.com'' ''2'' ''20.00'',
      order ''1002'' ''Sunday'' ''2024-01-01 10:00:00'' ''2024-01-07'' ''a@x.com'' ''2'' ''20.00'']
     = [(''a@x.com'', 2)] \<and>
   repeat_customers
     [order ''1001'' ''Sunday'' ''2024-01-01 10:00:00'' ''2024-01-07'' ''A@X.com'' ''2'' ''20.00'',
      order ''1002'' ''Sunday'' ''2024-01-01 10:00:00'' ''2024-01-07'' ''a@x.com'' ''2'' ''20.00'']
     = 1 \<and>
   repeat_customer_rate
     [order ''1001'' ''Sunday'' ''2024-01-01 10:00:00'' ''2024-01-07'' ''A@X.com'' ''2'' ''20.00'',
      order ''1002'' ''Sunday'' ''2024-01-01 10:00:00'' ''2024-01-07'' ''a@x.com'' ''2'' ''20.00'']
     = PFloat 100"
proof -
  have c: "customer_orders
     [order ''1001'' ''Sunday'' ''2024-01-01 10:00:00'' ''2024-01-07'' ''A@X.com'' ''2'' ''20.00'',
      order ''1002'' ''Sunday'' ''2024-01-01 10:00:00'' ''2024-01-07'' ''a@x.com'' ''2'' ''20.00'']
     = [(''a@x.com'', 2)]"
    by (simp add: customer_orders_def customer_emails_def get_or_def Counter_def order_def
        lower_email)
  then show ?thesis
    by (simp add: two_orders_frame customer_analysis_def case_study_customers_def
        dashboard_repeat_rate_def recommendation_repeat_rate_def truediv_def bind_def
        nunique_def recommendation_repeat_customers_def value_counts_def groupby_def
        List.map_filter_def count_def repeat_customers_def repeat_customer_rate_def)
qed

section \<open>Properties of the JSON snapshot\<close>

lemma digit_val_digit_char: "n < 10 \<Longrightarrow> digit_val (digit_char n) = Some n"
  by (simp add: digit_val_def digit_char_def)

lemma read_digits_snoc:
  "read_digits (cs @ [c]) acc =
     (case read_digits cs acc of
        None \<Rightarrow> None
      | Some m \<Rightarrow> (case digit_val c of None \<Rightarrow> None | Some d \<Rightarrow> Some (10 * m + d)))"
  by (induction cs arbitrary: acc) (auto split: option.splits)

lemma read_digits_nat_digits: "read_digits (nat_digits n) 0 = Some n"
proof (induction n rule: nat_digits.induct)
  case (1 n)
  show ?case
  proof (cases "n < 10")
    case True
    then show ?thesis
      by (subst nat_digits.simps) (simp add: digit_val_digit_char)
  next
    case False
    then have "read_digits (nat_digits (n div 10)) 0 = Some (n div 10)"
      by (rule "1.IH")
    with False show ?thesis
      by (subst nat_digits.simps) (simp add: read_digits_snoc digit_val_digit_char)
  qed
qed

lemma nat_digits_nonempty: "nat_digits n \<noteq> []"
  by (subst nat_digits.simps) simp

lemma hd_nat_digits_digit: "digit_val (hd (nat_digits n)) \<noteq> None"
proof (induction n rule: nat_digits.induct)
  case (1 n)
  show ?case
  proof (cases "n < 10")
    case True
    then show ?thesis
      by (subst nat_digits.simps) (simp add: digit_val_digit_char)
  next
    case False
    then have "digit_val (hd (nat_digits (n div 10))) \<noteq> None"
      by (rule "1.IH")
    with False show ?thesis
      by (subst nat_digits.simps) (simp add: nat_digits_nonempty)
  qed
qed

lemma read_nat_nat_digits: "read_nat (nat_digits n) = Some n"
  by (simp add: read_nat_def nat_digits_nonempty read_digits_nat_digits)

lemma read_int_str_int: "read_int (str_int i) = Some i"
proof (cases "i < 0")
  case True
  then show ?thesis
    by (simp add: str_int_def read_int_def read_nat_nat_digits)
next
  case False
  obtain c cs where cs: "nat_digits (nat i) = c # cs"
    using nat_digits_nonempty[of "nat i"] by (cases "nat_digits (nat i)") auto
  then have "digit_val c \<noteq> None"
    using hd_nat_digits_digit[of "nat i"] by simp
  then have "c \<noteq> CHR ''-''" and "c \<noteq> CHR ''+''"
    by (auto simp: digit_val_def)
  with False cs show ?thesis
    using read_nat_nat_digits[of "nat i"] by (simp add: str_int_def read_int_def)
qed

lemma str_int_inject: "str_int i = str_int j \<longleftrightarrow> i = j"
proof
  assume "str_int i = str_int j"
  then have "read_int (str_int i) = read_int (str_int j)" by simp
  then show "i = j" by (simp add: read_int_str_int)
qed simp

lemma scalar_reload: "scalar v \<Longrightarrow> reload v = v"
  by (cases v) (simp_all add: reload_def save_results_json_def)

lemma dict_set_fresh: "k \<notin> fst ` set d \<Longrightarrow> dict_set k v d = d @ [(k, v)]"
  by (induction d) auto

lemma foldl_dict_set_distinct:
  "distinct (map fst (d @ ps)) \<Longrightarrow> foldl (\<lambda>d (k, v). dict_set k v d) d ps = d @ ps"
proof (induction ps arbitrary: d)
  case Nil
  then show ?case by simp
next
  case (Cons p ps)
  obtain k v where p: "p = (k, v)" by (cases p)
  from Cons.prems p have "k \<notin> fst ` set d" by auto
  then have "dict_set k v d = d @ [(k, v)]" by (rule dict_set_fresh)
  moreover from Cons.prems p have "distinct (map fst ((d @ [(k, v)]) @ ps))" by simp
  ultimately show ?case
    using Cons.IH[of "d @ [(k, v)]"] p by simp
qed

lemma dict_of_pairs_distinct: "distinct (map fst ps) \<Longrightarrow> dict_of_pairs ps = ps"
  using foldl_dict_set_distinct[of "[]" ps] by (simp add: dict_of_pairs_def)

lemma reload_dict:
  assumes "distinct (map (key_str \<circ> fst) d)"
  shows "reload (PDict d) = PDict (map (\<lambda>(k, v). (KStr (key_str k), reload v)) d)"
proof -
  let ?ms = "map (map_prod KStr json_load) (map (map_prod key_str json_dump) d)"
  have keys: "map fst ?ms = map KStr (map (key_str \<circ> fst) d)"
    by (simp add: comp_def)
  have "distinct (map KStr (map (key_str \<circ> fst) d))"
    using assms by (simp add: distinct_map inj_on_def)
  then have "distinct (map fst ?ms)"
    by (simp only: keys)
  then have "dict_of_pairs ?ms = ?ms"
    by (rule dict_of_pairs_distinct)
  moreover have "?ms = map (\<lambda>(k, v). (KStr (key_str k), reload v)) d"
    by (auto simp: reload_def save_results_json_def)
  ultimately show ?thesis
    by (simp add: reload_def save_results_json_def)
qed

lemma map_of_string_keys:
  assumes "distinct (map (key_str \<circ> fst) d)" and "map_of d k = Some v"
  shows "map_of (map (\<lambda>(k, v). (KStr (key_str k), f v)) d) (KStr (key_str k)) = Some (f v)"
  using assms
proof (induction d)
  case Nil
  then show ?case by simp
next
  case (Cons p d)
  obtain k' v' where p: "p = (k', v')" by (cases p)
  show ?case
  proof (cases "k' = k")
    case True
    with Cons.prems p show ?thesis by simp
  next
    case False
    with Cons.prems p have m: "map_of d k = Some v" by simp
    then have "(k, v) \<in> set d" by (rule map_of_SomeD)
    then have i: "key_str k \<in> (key_str \<circ> fst) ` set d" by force
    have n: "key_str k' \<notin> (key_str \<circ> fst) ` set d"
      using Cons.prems(1) p by simp
    from i n have "key_str k' \<noteq> key_str k" by metis
    with Cons.IH m Cons.prems p show ?thesis by simp
  qed
qed

lemma map_of_no_int_keys:
  "map_of (map (\<lambda>(k, v). (KStr (key_str k), f v)) d) (KInt i) = None"
  by (induction d) auto

lemma most_common_distinct:
  "distinct (map fst d) \<Longrightarrow> distinct (map fst (most_common n d))"
  by (simp add: most_common_def take_map[symmetric] distinct_map_sort_key)

lemma counts_dict_table:
  assumes "distinct (map fst d)" and "inj (key_str \<circ> mk)"
  shows "\<exists>t. counts_dict mk d = PDict t \<and> distinct (map (key_str \<circ> fst) t)
             \<and> list_all (\<lambda>(k, c). scalar c) t"
proof -
  let ?t = "map (\<lambda>(k, c). (mk k, PInt (int c))) d"
  have "map (key_str \<circ> fst) ?t = map (key_str \<circ> mk) (map fst d)"
    by (simp add: comp_def case_prod_unfold)
  moreover have "distinct (map (key_str \<circ> mk) (map fst d))"
  proof -
    have "inj_on (key_str \<circ> mk) (set (map fst d))"
      using assms(2) by (rule inj_on_subset) simp
    with assms(1) show ?thesis
      by (subst distinct_map) (intro conjI)
  qed
  ultimately have "distinct (map (key_str \<circ> fst) ?t)"
    by (simp only:)
  moreover have "list_all (\<lambda>(k, c). scalar c) ?t"
    by (simp add: list_all_iff case_prod_unfold)
  ultimately show ?thesis
    by (auto simp: counts_dict_def)
qed

lemma inj_key_str_KStr: "inj (key_str \<circ> KStr)"
  by (simp add: inj_on_def)

lemma inj_key_str_KInt: "inj (key_str \<circ> KInt)"
  by (simp add: inj_on_def str_int_inject)

lemma inj_key_str_hour: "inj (key_str \<circ> (\<lambda>h. KInt (int h)))"
  by (simp add: inj_on_def str_int_inject)

lemma timing_results_keys:
  "map fst (timing_results days) =
     (if days \<noteq> [] then
        [KStr ''avg_days_before_event'', KStr ''same_day_purchases'',
         KStr ''last_minute_purchases'', KStr ''advance_purchases'']
      else [])"
  by (simp add: timing_results_def)

lemma timing_results_scalar: "list_all (\<lambda>(k, v). scalar v) (timing_results days)"
  by (simp add: timing_results_def)

lemma analyze_data_results:
  assumes "analyze_data B data = Inr results"
  shows "\<exists>items. results = PDict items \<and> distinct (map (key_str \<circ> fst) items) \<and>
           list_all (\<lambda>(k, v). scalar v \<or>
                       (\<exists>t. v = PDict t \<and> distinct (map (key_str \<circ> fst) t)
                            \<and> list_all (\<lambda>(k', c). scalar c) t)) items"
proof -
  let ?ok = "\<lambda>v. scalar v \<or> (\<exists>t. v = PDict t \<and> distinct (map (key_str \<circ> fst) t)
                                   \<and> list_all (\<lambda>(k', c). scalar c) t)"
  let ?times = "List.map_filter (time_features B) data"
  have table: "?ok (counts_dict mk d)" if "distinct (map fst d)" and "inj (key_str \<circ> mk)" for mk
    and d :: "('k \<times> nat) list"
    using counts_dict_table[OF that] by blast
  from assms obtain tickets revenue days quantities where
    res: "results = PDict (
          [(KStr ''total_orders'', PInt (int (length data))),
           (KStr ''total_tickets'', PInt tickets),
           (KStr ''total_revenue'',
              (if filter (\<lambda>row. truthy row ''Gross sales'') data = [] then PInt 0
               else PFloat revenue)),
           (KStr ''unique_customers'', PInt (int (unique_customers data)))]
          @ timing_results (map fst ?times) @
          [(KStr ''peak_hour'',
              (case max_key (Counter (map snd ?times)) of None \<Rightarrow> PNone | Some h \<Rightarrow> PInt (int h))),
           (KStr ''hourly_distribution'',
              counts_dict (\<lambda>h. KInt (int h)) (Counter (map snd ?times))),
           (KStr ''orders_by_day'', counts_dict KStr (Counter days)),
           (KStr ''repeat_customer_rate'', repeat_customer_rate data),
           (KStr ''avg_orders_per_customer'', avg_orders_per_customer data),
           (KStr ''top_states'',
              counts_dict KStr (most_common 10
                (Counter (map (\<lambda>row. get_or row ''Purchaser state'' ''Unknown'') data)))),
           (KStr ''top_cities'',
              counts_dict KStr (most_common 10
                (Counter (map (\<lambda>row. get_or row ''Purchaser city'' ''Unknown'') data)))),
           (KStr ''payment_methods'',
              counts_dict KStr
                (Counter (map (\<lambda>row. get_or row ''Payment type'' ''Unknown'') data))),
           (KStr ''ticket_quantities'', counts_dict KInt (Counter quantities))])"
    by (auto simp: analyze_data_def bind_def Let_def split: sum.splits)
  have peak: "scalar (case max_key (Counter (map snd ?times)) of
                        None \<Rightarrow> PNone | Some h \<Rightarrow> PInt (int h))"
    by (simp split: option.splits)
  have rate: "scalar (repeat_customer_rate data)" "scalar (avg_orders_per_customer data)"
    by (simp_all add: repeat_customer_rate_def avg_orders_per_customer_def)
  have rev: "scalar (if filter (\<lambda>row. truthy row ''Gross sales'') data = [] then PInt 0
                     else PFloat revenue)"
    by simp
  have hourly: "?ok (counts_dict (\<lambda>h. KInt (int h)) (Counter (map snd ?times)))"
    by (rule table[OF Counter_distinct inj_key_str_hour])
  have by_day: "?ok (counts_dict KStr (Counter days))"
    by (rule table[OF Counter_distinct inj_key_str_KStr])
  have states: "?ok (counts_dict KStr (most_common 10
                  (Counter (map (\<lambda>row. get_or row ''Purchaser state'' ''Unknown'') data))))"
    by (rule table[OF most_common_distinct[OF Counter_distinct] inj_key_str_KStr])
  have cities: "?ok (counts_dict KStr (most_common 10
                  (Counter (map (\<lambda>row. get_or row ''Purchaser city'' ''Unknown'') data))))"
    by (rule table[OF most_common_distinct[OF Counter_distinct] inj_key_str_KStr])
  have payment: "?ok (counts_dict KStr
                  (Counter (map (\<lambda>row. get_or row ''Payment type'' ''Unknown'') data)))"
    by (rule table[OF Counter_distinct inj_key_str_KStr])
  have quantities: "?ok (counts_dict KInt (Counter quantities))"
    by (rule table[OF Counter_distinct inj_key_str_KInt])
  have timing: "list_all (\<lambda>(k, v). ?ok v) (timing_results (map fst ?times))"
    using timing_results_scalar[of "map fst ?times"] by (auto simp: list_all_iff)
  let ?items = "[(KStr ''total_orders'', PInt (int (length data))),
           (KStr ''total_tickets'', PInt tickets),
           (KStr ''total_revenue'',
              (if filter (\<lambda>row. truthy row ''Gross sales'') data = [] then PInt 0
               else PFloat revenue)),
           (KStr ''unique_customers'', PInt (int (unique_customers data)))]
          @ timing_results (map fst ?times) @
          [(KStr ''peak_hour'',
              (case max_key (Counter (map snd ?times)) of None \<Rightarrow> PNone | Some h \<Rightarrow> PInt (int h))),
           (KStr ''hourly_distribution'',
              counts_dict (\<lambda>h. KInt (int h)) (Counter (map snd ?times))),
           (KStr ''orders_by_day'', counts_dict KStr (Counter days)),
           (KStr ''repeat_customer_rate'', repeat_customer_rate data),
           (KStr ''avg_orders_per_customer'', avg_orders_per_customer data),
           (KStr ''top_states'',
              counts_dict KStr (most_common 10
                (Counter (map (\<lambda>row. get_or row ''Purchaser state'' ''Unknown'') data)))),
           (KStr ''top_cities'',
              counts_dict KStr (most_common 10
                (Counter (map (\<lambda>row. get_or row ''Purchaser city'' ''Unknown'') data)))),
           (KStr ''payment_methods'',
              counts_dict KStr
                (Counter (map (\<lambda>row. get_or row ''Payment type'' ''Unknown'') data))),
           (KStr ''ticket_quantities'', counts_dict KInt (Counter quantities))]"
  have keys: "distinct (map (key_str \<circ> fst) ?items)"
    by (cases "map fst ?times = []") (simp_all add: timing_results_def)
  have vals: "list_all (\<lambda>(k, v). ?ok v) ?items"
    using peak rate rev hourly by_day states cities payment quantities timing
    by simp
  from res keys vals show ?thesis
    by blast
qed

lemma str_int_2: "str_int 2 = ''2''"
  by code_simp

lemma str_int_14: "str_int 14 = ''14''"
  by code_simp

lemma one_order_results:
  "analyze_data plain_builtins
     [order ''1001'' ''Saturday'' ''2024-01-05 14:30:00'' ''2024-01-06'' ''A@X.com'' ''2''
        ''20.00''] =
   Inr (PDict
     [(KStr ''total_orders'', PInt 1),
      (KStr ''total_tickets'', PInt 2),
      (KStr ''total_revenue'', PFloat 20),
      (KStr ''unique_customers'', PInt 1),
      (KStr ''avg_days_before_event'', PFloat 0),
      (KStr ''same_day_purchases'', PInt 1),
      (KStr ''last_minute_purchases'', PInt 1),
      (KStr ''advance_purchases'', PInt 0),
      (KStr ''peak_hour'', PInt 14),
      (KStr ''hourly_distribution'', PDict [(KInt 14, PInt 1)]),
      (KStr ''orders_by_day'', PDict [(KStr ''Saturday'', PInt 1)]),
      (KStr ''repeat_customer_rate'', PFloat 0),
      (KStr ''avg_orders_per_customer'', PFloat 1),
      (KStr ''top_states'', PDict [(KStr ''DC'', PInt 1)]),
      (KStr ''top_cities'', PDict [(KStr ''Washington'', PInt 1)]),
      (KStr ''payment_methods'', PDict [(KStr ''Paid'', PInt 1)]),
      (KStr ''ticket_quantities'', PDict [(KInt 2, PInt 1)])])"
  by (simp add: analyze_data_def total_tickets_def total_revenue_def ticket_int_def
      sales_float_def truthy_def bind_def plain_builtins_def order_def read_simps List.map_filter_def
      time_features_def timing_results_def unique_customers_def get_or_def lower_email
      Counter_def counts_dict_def most_common_def day_of_week_key_def repeat_customer_rate_def
      avg_orders_per_customer_def customer_orders_def customer_emails_def repeat_customers_def)

text \<open>
  Claim C9, as amended. After the results of \<open>analyze_data\<close> are written and loaded
  again, each scalar aggregate is found unchanged under its key. Each table is found under
  its key too, and each of its entries with an unchanged count, but under the text of the
  entry's key: a table keyed by integers (the hourly distribution, the ticket quantities)
  comes back keyed by their decimal texts, and no integer key is left in it.
\<close>

theorem snapshot_reload:
  assumes "analyze_data B data = Inr results" and "py_get results name = Some v"
  shows "(scalar v \<longrightarrow> py_get (reload results) (KStr (key_str name)) = Some v) \<and>
         (\<forall>t k c. v = PDict t \<and> map_of t k = Some c \<longrightarrow>
            (\<exists>t'. py_get (reload results) (KStr (key_str name)) = Some (PDict t') \<and>
                  map_of t' (KStr (key_str k)) = Some c \<and>
                  (\<forall>i. map_of t' (KInt i) = None)))"
proof -
  from analyze_data_results[OF assms(1)] obtain items where
    res: "results = PDict items" and keys: "distinct (map (key_str \<circ> fst) items)" and
    vals: "list_all (\<lambda>(k, v). scalar v \<or>
                       (\<exists>t. v = PDict t \<and> distinct (map (key_str \<circ> fst) t)
                            \<and> list_all (\<lambda>(k', c). scalar c) t)) items"
    by blast
  from assms(2) res have m: "map_of items name = Some v"
    by simp
  have got: "py_get (reload results) (KStr (key_str name)) = Some (reload v)"
    using map_of_string_keys[OF keys m, of reload] by (simp add: res reload_dict[OF keys])
  have first: "scalar v \<longrightarrow> py_get (reload results) (KStr (key_str name)) = Some v"
    using got by (simp add: scalar_reload)
  have second: "\<exists>t'. py_get (reload results) (KStr (key_str name)) = Some (PDict t') \<and>
                  map_of t' (KStr (key_str k)) = Some c \<and> (\<forall>i. map_of t' (KInt i) = None)"
    if v: "v = PDict t" and c: "map_of t k = Some c" for t k c
  proof -
    from m have "(name, v) \<in> set items"
      by (rule map_of_SomeD)
    with vals v have tk: "distinct (map (key_str \<circ> fst) t)"
      and tv: "list_all (\<lambda>(k', c). scalar c) t"
      by (auto simp: list_all_iff)
    from c have "(k, c) \<in> set t"
      by (rule map_of_SomeD)
    with tv have "scalar c"
      by (auto simp: list_all_iff)
    then have "reload c = c"
      by (rule scalar_reload)
    let ?t' = "map (\<lambda>(k, v). (KStr (key_str k), reload v)) t"
    have "py_get (reload results) (KStr (key_str name)) = Some (PDict ?t')"
      using got v by (simp add: reload_dict[OF tk])
    moreover have "map_of ?t' (KStr (key_str k)) = Some c"
      using map_of_string_keys[OF tk c, of reload] \<open>reload c = c\<close> by simp
    moreover have "\<forall>i. map_of ?t' (KInt i) = None"
      by (simp add: map_of_no_int_keys)
    ultimately show ?thesis
      by blast
  qed
  from first second show ?thesis
    by blast
qed

lemma one_order_reload:
  "reload (PDict
     [(KStr ''total_orders'', PInt 1),
      (KStr ''total_tickets'', PInt 2),
      (KStr ''total_revenue'', PFloat 20),
      (KStr ''unique_customers'', PInt 1),
      (KStr ''avg_days_before_event'', PFloat 0),
      (KStr ''same_day_purchases'', PInt 1),
      (KStr ''last_minute_purchases'', PInt 1),
      (KStr ''advance_purchases'', PInt 0),
      (KStr ''peak_hour'', PInt 14),
      (KStr ''hourly_distribution'', PDict [(KInt 14, PInt 1)]),
      (KStr ''orders_by_day'', PDict [(KStr ''Saturday'', PInt 1)]),
      (KStr ''repeat_customer_rate'', PFloat 0),
      (KStr ''avg_orders_per_customer'', PFloat 1),
      (KStr ''top_states'', PDict [(KStr ''DC'', PInt 1)]),
      (KStr ''top_cities'', PDict [(KStr ''Washington'', PInt 1)]),
      (KStr ''payment_methods'', PDict [(KStr ''Paid'', PInt 1)]),
      (KStr ''ticket_quantities'', PDict [(KInt 2, PInt 1)])]) =
   PDict
     [(KStr ''total_orders'', PInt 1),
      (KStr ''total_tickets'', PInt 2),
      (KStr ''total_revenue'', PFloat 20),
      (KStr ''unique_customers'', PInt 1),
      (KStr ''avg_days_before_event'', PFloat 0),
      (KStr ''same_day_purchases'', PInt 1),
      (KStr ''last_minute_purchases'', PInt 1),
      (KStr ''advance_purchases'', PInt 0),
      (KStr ''peak_hour'', PInt 14),
      (KStr ''hourly_distribution'', PDict [(KStr ''14'', PInt 1)]),
      (KStr ''orders_by_day'', PDict [(KStr ''Saturday'', PInt 1)]),
      (KStr ''repeat_customer_rate'', PFloat 0),
      (KStr ''avg_orders_per_customer'', PFloat 1),
      (KStr ''top_states'', PDict [(KStr ''DC'', PInt 1)]),
      (KStr ''top_cities'', PDict [(KStr ''Washington'', PInt 1)]),
      (KStr ''payment_methods'', PDict [(KStr ''Paid'', PInt 1)]),
      (KStr ''ticket_quantities'', PDict [(KStr ''2'', PInt 1)])]"
  by (simp add: reload_def save_results_json_def dict_of_pairs_def str_int_2 str_int_14)

theorem snapshot_reload_witness:
  "(case analyze_data plain_builtins
           [order ''1001'' ''Saturday'' ''2024-01-05 14:30:00'' ''2024-01-06'' ''A@X.com'' ''2''
        ''20.00''] of
      Inl e \<Rightarrow> False
    | Inr results \<Rightarrow>
        py_get results (KStr ''total_revenue'') = Some (PFloat 20) \<and>
        py_get (reload results) (KStr ''total_revenue'') = Some (PFloat 20) \<and>
        py_get results (KStr ''ticket_quantities'') = Some (PDict [(KInt 2, PInt 1)]) \<and>
        py_get (reload results) (KStr ''ticket_quantities'') = Some (PDict [(KStr ''2'', PInt 1)]))"
proof -
  let ?res = "PDict
     [(KStr ''total_orders'', PInt 1),
      (KStr ''total_tickets'', PInt 2),
      (KStr ''total_revenue'', PFloat 20),
      (KStr ''unique_customers'', PInt 1),
      (KStr ''avg_days_before_event'', PFloat 0),
      (KStr ''same_day_purchases'', PInt 1),
      (KStr ''last_minute_purchases'', PInt 1),
      (KStr ''advance_purchases'', PInt 0),
      (KStr ''peak_hour'', PInt 14),
      (KStr ''hourly_distribution'', PDict [(KInt 14, PInt 1)]),
      (KStr ''orders_by_day'', PDict [(KStr ''Saturday'', PInt 1)]),
      (KStr ''repeat_customer_rate'', PFloat 0),
      (KStr ''avg_orders_per_customer'', PFloat 1),
      (KStr ''top_states'', PDict [(KStr ''DC'', PInt 1)]),
      (KStr ''top_cities'', PDict [(KStr ''Washington'', PInt 1)]),
      (KStr ''payment_methods'', PDict [(KStr ''Paid'', PInt 1)]),
      (KStr ''ticket_quantities'', PDict [(KInt 2, PInt 1)])]"
  have g: "py_get ?res (KStr ''total_revenue'') = Some (PFloat 20)"
    by simp
  have "scalar (PFloat 20) \<longrightarrow> py_get (reload ?res) (KStr (key_str (KStr ''total_revenue''))) = Some (PFloat 20)"
    using snapshot_reload[OF one_order_results g] by (rule conjunct1)
  then have r: "py_get (reload ?res) (KStr ''total_revenue'') = Some (PFloat 20)"
    by simp
  have q: "py_get ?res (KStr ''ticket_quantities'') = Some (PDict [(KInt 2, PInt 1)])"
    by simp
  have q': "py_get (reload ?res) (KStr ''ticket_quantities'') = Some (PDict [(KStr ''2'', PInt 1)])"
    by (simp add: one_order_reload)
  from g r q q' show ?thesis
    by (simp only: one_order_results sum.case)
qed

text \<open>
  Claim C9 as stated fails on the results for one order of two tickets placed at 14:30:
  the entries \<open>14: 1\<close> of the hourly distribution and \<open>2: 1\<close> of the ticket quantities
  are not found again under their keys; they come back under the texts \<open>"14"\<close> and
  \<open>"2"\<close>.
\<close>

theorem snapshot_integer_keys_counterexample:
  "(case analyze_data plain_builtins
           [order ''1001'' ''Saturday'' ''2024-01-05 14:30:00'' ''2024-01-06'' ''A@X.com'' ''2''
        ''20.00''] of
      Inl e \<Rightarrow> False
    | Inr results \<Rightarrow>
        py_get results (KStr ''hourly_distribution'') = Some (PDict [(KInt 14, PInt 1)]) \<and>
        py_get (reload results) (KStr ''hourly_distribution'') = Some (PDict [(KStr ''14'', PInt 1)]) \<and>
        py_get results (KStr ''ticket_quantities'') = Some (PDict [(KInt 2, PInt 1)]) \<and>
        py_get (reload results) (KStr ''ticket_quantities'') = Some (PDict [(KStr ''2'', PInt 1)]) \<and>
        py_get (PDict [(KStr ''2'', PInt 1)]) (KInt 2) = None \<and>
        reload results \<noteq> results)"
  by (simp add: one_order_results one_order_reload)

end
